theory Spec2Isabelle
  imports Main "HOL-Library.AList" "HOL-Library.Sublist"
begin

section \<open>JavaScript values\<close>

text \<open>
  The values that flow through the tool registry and the orchestrator are JSON values
  (what \<^verbatim>\<open>JSON.parse\<close> yields) plus \<^verbatim>\<open>undefined\<close>. A number is given by its
  canonical rendering, the string that \<^verbatim>\<open>String(n)\<close> returns: the code only looks at
  \<^verbatim>\<open>typeof\<close>, at equality and at the rendering of numbers, and the rendering identifies
  a number up to the sign of zero, which \<^verbatim>\<open>includes\<close> does not tell apart either. An
  object is a plain object (its prototype is \<^verbatim>\<open>Object.prototype\<close>), given by the list of
  its own enumerable entries in \<^verbatim>\<open>Object.entries\<close> order, keys distinct; an array
  inherits from \<^verbatim>\<open>Array.prototype\<close>.
\<close>

datatype jsval =
    JUndefined
  | JNull
  | JBool bool
  | JNum string
  | JStr string
  | JArr "jsval list"
  | JObj "(string \<times> jsval) list"

text \<open>A thrown value: an \<^verbatim>\<open>Error\<close> with its message, or anything else.\<close>

datatype js_exn = JsError string | JsThrown

text \<open>\<^verbatim>\<open>error instanceof Error ? error.message : 'Unknown error'\<close>\<close>

fun error_message :: "js_exn \<Rightarrow> string" where
  "error_message (JsError m) = m"
| "error_message JsThrown = ''Unknown error''"

fun js_typeof :: "jsval \<Rightarrow> string" where
  "js_typeof JUndefined = ''undefined''"
| "js_typeof JNull = ''object''"
| "js_typeof (JBool b) = ''boolean''"
| "js_typeof (JNum n) = ''number''"
| "js_typeof (JStr s) = ''string''"
| "js_typeof (JArr xs) = ''object''"
| "js_typeof (JObj kvs) = ''object''"

definition digit_char :: "nat \<Rightarrow> char" where
  "digit_char d = char_of (48 + d)"

function string_of_nat :: "nat \<Rightarrow> string" where
  "string_of_nat n =
     (if n < 10 then [digit_char n] else string_of_nat (n div 10) @ [digit_char (n mod 10)])"
  by pat_completeness auto
termination
  by (relation "measure id") auto

definition string_of_int :: "int \<Rightarrow> string" where
  "string_of_int i = (if i < 0 then CHR ''-'' # string_of_nat (nat (- i)) else string_of_nat (nat i))"

text \<open>\<^verbatim>\<open>Array.prototype.join\<close> on strings.\<close>

fun join :: "string \<Rightarrow> string list \<Rightarrow> string" where
  "join sep [] = []"
| "join sep [x] = x"
| "join sep (x # y # ys) = x @ sep @ join sep (y # ys)"

text \<open>
  \<^verbatim>\<open>String(v)\<close>. Inside \<^verbatim>\<open>join\<close>, \<^verbatim>\<open>null\<close> and \<^verbatim>\<open>undefined\<close> elements
  render as the empty string.
\<close>

fun js_toString :: "jsval \<Rightarrow> string" where
  "js_toString JUndefined = ''undefined''"
| "js_toString JNull = ''null''"
| "js_toString (JBool b) = (if b then ''true'' else ''false'')"
| "js_toString (JNum n) = n"
| "js_toString (JStr s) = s"
| "js_toString (JArr xs) =
     join '','' (map (\<lambda>v. if v = JUndefined \<or> v = JNull then [] else js_toString v) xs)"
| "js_toString (JObj kvs) = ''[object Object]''"

definition js_join :: "string \<Rightarrow> jsval list \<Rightarrow> string" where
  "js_join sep xs =
     join sep (map (\<lambda>v. if v = JUndefined \<or> v = JNull then [] else js_toString v) xs)"

text \<open>
  \<^verbatim>\<open>Array.prototype.includes\<close> compares with SameValueZero: primitives by value,
  arrays and objects by identity, and a freshly parsed array or object is identical to no
  member of a schema's enum.
\<close>

fun js_includes :: "jsval list \<Rightarrow> jsval \<Rightarrow> bool" where
  "js_includes xs (JArr ys) = False"
| "js_includes xs (JObj kvs) = False"
| "js_includes xs v = (v \<in> set xs)"

text \<open>The own keys and entries of an array: its indices.\<close>

definition index_entries :: "'a list \<Rightarrow> (string \<times> 'a) list" where
  "index_entries xs = zip (map string_of_nat [0 ..< length xs]) xs"

text \<open>
  The names of the members that every plain object inherits from \<^verbatim>\<open>Object.prototype\<close>,
  and of those that an array inherits from \<^verbatim>\<open>Array.prototype\<close> (as of ES2023) before
  them. The members are functions, but for \<^verbatim>\<open>__proto__\<close>, which reads as the prototype
  object: none is \<^verbatim>\<open>undefined\<close> or \<^verbatim>\<open>null\<close>, and none has a property \<^verbatim>\<open>type\<close> or
  \<^verbatim>\<open>enum\<close>.
\<close>

definition object_prototype_keys :: "string list" where
  "object_prototype_keys =
     [''constructor'', ''__defineGetter__'', ''__defineSetter__'', ''hasOwnProperty'',
      ''__lookupGetter__'', ''__lookupSetter__'', ''isPrototypeOf'', ''propertyIsEnumerable'',
      ''toString'', ''valueOf'', ''__proto__'', ''toLocaleString'']"

definition array_prototype_keys :: "string list" where
  "array_prototype_keys =
     [''constructor'', ''at'', ''concat'', ''copyWithin'', ''fill'', ''find'', ''findIndex'',
      ''findLast'', ''findLastIndex'', ''lastIndexOf'', ''pop'', ''push'', ''reverse'',
      ''shift'', ''unshift'', ''slice'', ''sort'', ''splice'', ''includes'', ''indexOf'',
      ''join'', ''keys'', ''entries'', ''values'', ''forEach'', ''filter'', ''flat'',
      ''flatMap'', ''map'', ''every'', ''some'', ''reduce'', ''reduceRight'',
      ''toLocaleString'', ''toString'', ''toReversed'', ''toSorted'', ''toSpliced'', ''with'']"

text \<open>
  \<^verbatim>\<open>field in value\<close> walks the prototype chain: the own keys of an object and the
  members it inherits; the indices, \<^verbatim>\<open>length\<close> and the inherited members of an array;
  a \<^verbatim>\<open>TypeError\<close> on a primitive (in the wording of V8, which quotes the key and prints
  the value).
\<close>

fun js_in :: "string \<Rightarrow> jsval \<Rightarrow> js_exn + bool" where
  "js_in k (JObj kvs) = Inr (k \<in> set (map fst kvs) \<or> k \<in> set object_prototype_keys)"
| "js_in k (JArr xs) =
     Inr (k = ''length'' \<or> k \<in> set (map fst (index_entries xs))
          \<or> k \<in> set array_prototype_keys \<or> k \<in> set object_prototype_keys)"
| "js_in k v =
     Inl (JsError (''Cannot use 'in' operator to search for '' @ [CHR 0x27] @ k @ [CHR 0x27]
                   @ '' in '' @ js_toString v))"

text \<open>
  What \<^verbatim>\<open>value[field]\<close> reads: the value of an own property, the inherited member of
  that name, or \<^verbatim>\<open>undefined\<close> when there is neither.
\<close>

datatype property = Value jsval | Member string

text \<open>
  \<^verbatim>\<open>value[field]\<close>. An own property shadows an inherited member. The code reads it only
  after \<^verbatim>\<open>field in value\<close> has succeeded, that is, on an object or an array.
\<close>

fun js_get :: "jsval \<Rightarrow> string \<Rightarrow> property" where
  "js_get (JObj kvs) k =
     (case map_of kvs k of
        Some v \<Rightarrow> Value v
      | None \<Rightarrow> if k \<in> set object_prototype_keys then Member k else Value JUndefined)"
| "js_get (JArr xs) k =
     (if k = ''length'' then Value (JNum (string_of_nat (length xs)))
      else case map_of (index_entries xs) k of
             Some v \<Rightarrow> Value v
           | None \<Rightarrow> if k \<in> set array_prototype_keys \<or> k \<in> set object_prototype_keys
                     then Member k else Value JUndefined)"
| "js_get v k = Value JUndefined"

text \<open>
  \<^verbatim>\<open>Object.entries(value)\<close>: a \<^verbatim>\<open>TypeError\<close> on \<^verbatim>\<open>null\<close> and \<^verbatim>\<open>undefined\<close>, no
  entries for a boolean or a number, the characters of a string, the elements of an array.
\<close>

fun js_entries :: "jsval \<Rightarrow> js_exn + (string \<times> jsval) list" where
  "js_entries (JObj kvs) = Inr kvs"
| "js_entries (JArr xs) = Inr (index_entries xs)"
| "js_entries (JStr s) = Inr (index_entries (map (\<lambda>c. JStr [c]) s))"
| "js_entries (JBool b) = Inr []"
| "js_entries (JNum n) = Inr []"
| "js_entries v = Inl (JsError ''Cannot convert undefined or null to object'')"


section \<open>Tool registry\<close>

text \<open>\<^verbatim>\<open>interface ToolResult\<close> of the tool service.\<close>

record ToolResult =
  success :: bool
  result :: "jsval option"
  error :: "string option"
  executionTimeMs :: int

text \<open>
  A property schema as \<^verbatim>\<open>validateParameters\<close> reads it:
  \<^verbatim>\<open>{ type?: string | string[]; enum?: unknown[] }\<close>.
\<close>

datatype prop_type = TypeAbsent | TypeOne string | TypeMany "string list"

record PropSchema =
  prop_type :: prop_type
  prop_enum :: "jsval list option"

text \<open>
  \<^verbatim>\<open>ToolDefinition.parameters\<close>: the own entries of its \<^verbatim>\<open>properties\<close> (a plain object,
  mandatory in \<^verbatim>\<open>ToolDefinition\<close>) in declaration order, and the optional \<^verbatim>\<open>required\<close>
  list. Descriptions and defaults are not read by the registry.
\<close>

record ToolParameters =
  properties :: "(string \<times> PropSchema) list"
  required :: "string list option"

record ToolDefinition =
  tool_name :: string
  tool_description :: string
  tool_parameters :: ToolParameters

text \<open>
  An entry of \<^verbatim>\<open>toolRegistry\<close>. The tool implementation is a parameter: it returns a
  result or throws.
\<close>

record RegisteredTool =
  execute :: "jsval \<Rightarrow> js_exn + ToolResult"
  tool_definition :: ToolDefinition

text \<open>\<^verbatim>\<open>Array.isArray(propSchema.type) ? propSchema.type : [propSchema.type]\<close>\<close>

fun allowedTypes :: "prop_type \<Rightarrow> string option list" where
  "allowedTypes TypeAbsent = [None]"
| "allowedTypes (TypeOne t) = [Some t]"
| "allowedTypes (TypeMany ts) = map Some ts"

text \<open>The loop over \<^verbatim>\<open>requiredFields\<close>.\<close>

fun checkRequired :: "jsval \<Rightarrow> string list \<Rightarrow> js_exn + string option" where
  "checkRequired ps [] = Inr None"
| "checkRequired ps (field # rest) =
     (case js_in field ps of
        Inl ex \<Rightarrow> Inl ex
      | Inr present \<Rightarrow>
          if \<not> present \<or> js_get ps field = Value JUndefined \<or> js_get ps field = Value JNull
          then Inr (Some (''Missing required field: '' @ field))
          else checkRequired ps rest)"

text \<open>
  \<^verbatim>\<open>properties?.[key]\<close>: the property schema declared under the key, or else the member
  of that name which the \<^verbatim>\<open>properties\<close> object inherits; such a member is truthy and has
  neither \<^verbatim>\<open>type\<close> nor \<^verbatim>\<open>enum\<close>.
\<close>

definition propertySchema :: "(string \<times> PropSchema) list \<Rightarrow> string \<Rightarrow> PropSchema option" where
  "propertySchema props key =
     (case map_of props key of
        Some propSchema \<Rightarrow> Some propSchema
      | None \<Rightarrow> if key \<in> set object_prototype_keys
                then Some \<lparr>prop_type = TypeAbsent, prop_enum = None\<rparr>
                else None)"

text \<open>The loop over \<^verbatim>\<open>Object.entries(parameters)\<close>.\<close>

fun checkEntries :: "(string \<times> PropSchema) list \<Rightarrow> (string \<times> jsval) list \<Rightarrow> string option" where
  "checkEntries props [] = None"
| "checkEntries props ((key, v) # rest) =
     (case propertySchema props key of
        None \<Rightarrow> checkEntries props rest
      | Some propSchema \<Rightarrow>
          if Some (js_typeof v) \<notin> set (allowedTypes (prop_type propSchema))
             \<and> Some ''null'' \<notin> set (allowedTypes (prop_type propSchema))
          then Some (''Invalid type for '' @ key @ '': expected ''
                     @ join '' or '' (map (case_option [] id) (allowedTypes (prop_type propSchema)))
                     @ '', got '' @ js_typeof v)
          else (case prop_enum propSchema of
                  None \<Rightarrow> checkEntries props rest
                | Some allowed \<Rightarrow>
                    if \<not> js_includes allowed v
                    then Some (''Invalid value for '' @ key @ '': must be one of ''
                               @ js_join '', '' allowed)
                    else checkEntries props rest))"

definition validateParameters :: "jsval \<Rightarrow> ToolParameters \<Rightarrow> js_exn + string option" where
  "validateParameters ps schema =
     (case required schema of
        None \<Rightarrow> Inr None
      | Some requiredFields \<Rightarrow>
          (case checkRequired ps requiredFields of
             Inl ex \<Rightarrow> Inl ex
           | Inr (Some err) \<Rightarrow> Inr (Some err)
           | Inr None \<Rightarrow>
               (case js_entries ps of
                  Inl ex \<Rightarrow> Inl ex
                | Inr entries \<Rightarrow> Inr (checkEntries (properties schema) entries))))"


section \<open>Messages, sessions and stream chunks\<close>

datatype role = System | User | Assistant | Tool

text \<open>\<^verbatim>\<open>interface ChatMessage\<close> of the model client.\<close>

record ChatMessage =
  role :: role
  content :: string
  msg_name :: "string option"
  toolCallId :: "string option"

text \<open>
  A session row of the conversation store. \<^verbatim>\<open>updatedAt\<close> is a clock reading; metadata
  and the creation time are never read or written by the pipeline.
\<close>

record Session =
  session_id :: string
  userId :: string
  title :: string
  systemPrompt :: "string option"
  updatedAt :: int

text \<open>What \<^verbatim>\<open>normalizeMessages\<close> produces: the provider's message parameters.\<close>

datatype wire_message =
    WireTool string string
  | WireAssistant string "string option"
  | WireUser string "string option"
  | WireSystem string

text \<open>
  One element of \<^verbatim>\<open>delta.toolCalls\<close>. The fields are strings by the
  \<^verbatim>\<open>StreamChunk\<close> interface; the orchestrator treats an empty and a missing id, name
  or argument fragment alike (\<^verbatim>\<open>tc.id || existing.id\<close>), so a missing one is the
  empty string here.
\<close>

record ToolCallDelta =
  tc_index :: nat
  tc_id :: string
  fn_name :: string
  fn_arguments :: string

text \<open>\<^verbatim>\<open>content?: string | null\<close>\<close>

datatype delta_content = ContentAbsent | ContentNull | ContentText string

record Choice =
  choice_index :: nat
  delta_role :: "string option"
  delta_content :: delta_content
  delta_toolCalls :: "ToolCallDelta list option"
  finishReason :: "string option"

record StreamChunk =
  chunk_id :: string
  created :: int
  model :: string
  choices :: "Choice list"

text \<open>
  The arguments of \<^verbatim>\<open>openai.chat.completions.create\<close> that the orchestrator chooses:
  the model, the normalized messages, and the tool list when tools are passed.
  Temperature and token limit are handed through from the request unchanged.
\<close>

record CompletionRequest =
  req_model :: string
  req_messages :: "wire_message list"
  req_tools :: "ToolDefinition list option"

text \<open>An entry of \<^verbatim>\<open>toolCallsBuffer\<close>: \<^verbatim>\<open>{ id, name, arguments }\<close>.\<close>

record ToolCallFragment =
  call_id :: string
  call_name :: string
  call_arguments :: string

section \<open>Environment and world\<close>

text \<open>
  Everything the pipeline calls and does not implement is a trace event; the caller-facing
  stream is the sequence of enqueued chunks. \<^verbatim>\<open>Enqueue\<close> is the forwarding of a provider
  chunk (\<^verbatim>\<open>JSON.stringify(value) + '\n'\<close>), \<^verbatim>\<open>EnqueueToolResult\<close> the chunk built
  after a tool call. Of the logger, only \<^verbatim>\<open>logger.error\<close> in the handlers is recorded.
\<close>

datatype event =
    ExecuteTool string jsval
  | ToolInvoked string jsval
  | SaveMessage string ChatMessage
  | GetMessages string
  | GetSession string
  | CreateCompletion CompletionRequest
  | Enqueue StreamChunk
  | EnqueueToolResult StreamChunk
  | LogError string string
  | ControllerClose
  | ControllerError js_exn

text \<open>
  The collaborators, as oracles: the wall clock (the \<open>k\<close>-th reading), the database (whether
  its \<open>k\<close>-th operation fails), \<^verbatim>\<open>JSON.parse\<close>, \<^verbatim>\<open>JSON.stringify\<close> on a tool result,
  the tool registry (a \<^verbatim>\<open>Map\<close>, in insertion order) and the provider, which answers a
  completion request with a stream of reads (each a chunk or a failure) or throws.
\<close>

record env =
  clock :: "nat \<Rightarrow> int"
  db_fails :: "nat \<Rightarrow> bool"
  json_parse :: "string \<Rightarrow> js_exn + jsval"
  json_stringify :: "ToolResult \<Rightarrow> string"
  registry :: "(string \<times> RegisteredTool) list"
  provider :: "CompletionRequest \<Rightarrow> js_exn + (js_exn + StreamChunk) list"

text \<open>
  The mutable world: clock readings and database operations so far, the two tables of the
  conversation store (messages in creation order, with their session id) and the trace.
\<close>

record world =
  tick :: nat
  db_ops :: nat
  sessions :: "(string \<times> Session) list"
  messages :: "(string \<times> ChatMessage) list"
  trace :: "event list"

definition emit :: "event \<Rightarrow> world \<Rightarrow> world" where
  "emit e w = w\<lparr>trace := trace w @ [e]\<rparr>"

text \<open>\<^verbatim>\<open>Date.now()\<close>\<close>

definition Date_now :: "env \<Rightarrow> world \<Rightarrow> int \<times> world" where
  "Date_now env w = (clock env (tick w), w\<lparr>tick := Suc (tick w)\<rparr>)"

text \<open>One Prisma operation: whether it fails, and the world after it.\<close>

definition db_op :: "env \<Rightarrow> world \<Rightarrow> bool \<times> world" where
  "db_op env w = (db_fails env (db_ops w), w\<lparr>db_ops := Suc (db_ops w)\<rparr>)"


section \<open>Tool service\<close>

definition getRegisteredTools :: "env \<Rightarrow> ToolDefinition list" where
  "getRegisteredTools env = map (\<lambda>(k, t). tool_definition t) (registry env)"

text \<open>
  \<^verbatim>\<open>ToolService.executeTool\<close>. The start time is read first; each early return reads
  the clock again. A result of the tool itself is returned as it is. The only exception
  that escapes is one thrown by \<^verbatim>\<open>validateParameters\<close>.
\<close>

definition executeTool :: "env \<Rightarrow> string \<Rightarrow> jsval \<Rightarrow> world \<Rightarrow> (js_exn + ToolResult) \<times> world" where
  "executeTool env toolName parameters w0 =
     (let (startTime, w1) = Date_now env (emit (ExecuteTool toolName parameters) w0)
      in case map_of (registry env) toolName of
           None \<Rightarrow>
             (let (now, w2) = Date_now env w1
              in (Inr \<lparr>success = False, result = None,
                       error = Some (''Tool not found: '' @ toolName),
                       executionTimeMs = now - startTime\<rparr>, w2))
         | Some tool \<Rightarrow>
             (case validateParameters parameters (tool_parameters (tool_definition tool)) of
                Inl ex \<Rightarrow> (Inl ex, w1)
              | Inr validationError \<Rightarrow>
                  if validationError \<noteq> None \<and> validationError \<noteq> Some []
                  then (let (now, w2) = Date_now env w1
                        in (Inr \<lparr>success = False, result = None,
                                 error = validationError,
                                 executionTimeMs = now - startTime\<rparr>, w2))
                  else (case execute tool parameters of
                          Inr r \<Rightarrow> (Inr r, emit (ToolInvoked toolName parameters) w1)
                        | Inl ex \<Rightarrow>
                            (let (now, w2) = Date_now env
                                   (emit (LogError ''Tool execution failed'' (error_message ex))
                                     (emit (ToolInvoked toolName parameters) w1))
                             in (Inr \<lparr>success = False, result = None,
                                      error = Some (error_message ex),
                                      executionTimeMs = now - startTime\<rparr>, w2)))))"


text \<open>The built-in tools. Their implementations are the parameter \<open>impl\<close>, by tool name.\<close>

definition string_prop :: PropSchema where
  "string_prop = \<lparr>prop_type = TypeOne ''string'', prop_enum = None\<rparr>"

definition integer_prop :: PropSchema where
  "integer_prop = \<lparr>prop_type = TypeOne ''integer'', prop_enum = None\<rparr>"

definition boolean_prop :: PropSchema where
  "boolean_prop = \<lparr>prop_type = TypeOne ''boolean'', prop_enum = None\<rparr>"

definition enum_prop :: "string list \<Rightarrow> PropSchema" where
  "enum_prop vs = \<lparr>prop_type = TypeOne ''string'', prop_enum = Some (map JStr vs)\<rparr>"

definition builtin ::
  "(string \<Rightarrow> jsval \<Rightarrow> js_exn + ToolResult) \<Rightarrow> string \<Rightarrow> string \<Rightarrow> (string \<times> PropSchema) list
     \<Rightarrow> string list \<Rightarrow> string \<times> RegisteredTool" where
  "builtin impl n d props req =
     (n, \<lparr>execute = impl n,
          tool_definition = \<lparr>tool_name = n, tool_description = d,
            tool_parameters = \<lparr>properties = props, required = Some req\<rparr>\<rparr>\<rparr>)"

definition toolRegistry :: "(string \<Rightarrow> jsval \<Rightarrow> js_exn + ToolResult) \<Rightarrow> (string \<times> RegisteredTool) list" where
  "toolRegistry impl =
     [builtin impl ''file_read'' ''Read the contents of a file from the local filesystem''
        [(''path'', string_prop), (''encoding'', enum_prop [''utf-8'', ''base64'']),
         (''maxLines'', integer_prop)]
        [''path''],
      builtin impl ''file_write'' ''Write content to a file on the local filesystem''
        [(''path'', string_prop), (''content'', string_prop), (''append'', boolean_prop)]
        [''path'', ''content''],
      builtin impl ''file_list'' ''List files and directories in a given path''
        [(''path'', string_prop), (''recursive'', boolean_prop), (''pattern'', string_prop)]
        [''path''],
      builtin impl ''web_search'' ''Search the web for information''
        [(''query'', string_prop), (''numResults'', integer_prop)]
        [''query''],
      builtin impl ''web_fetch'' ''Fetch and extract content from a URL''
        [(''url'', string_prop), (''extractText'', boolean_prop), (''maxLength'', integer_prop)]
        [''url''],
      builtin impl ''code_execute'' ''Execute code in a sandboxed environment''
        [(''code'', string_prop),
         (''language'', enum_prop [''javascript'', ''python'', ''bash'']),
         (''timeout'', integer_prop)]
        [''code'', ''language''],
      builtin impl ''data_transform'' ''Transform data between formats (JSON, CSV, YAML)''
        [(''data'', string_prop),
         (''fromFormat'', enum_prop [''json'', ''csv'', ''yaml'']),
         (''toFormat'', enum_prop [''json'', ''csv'', ''yaml''])]
        [''data'', ''fromFormat'', ''toFormat''],
      builtin impl ''data_query'' ''Query and filter data using JSONPath''
        [(''data'', string_prop), (''query'', string_prop)]
        [''data'', ''query'']]"

section \<open>Conversation store\<close>

text \<open>
  \<^verbatim>\<open>MemoryService.getSession\<close>: one lookup; a database failure is rethrown as
  \<^verbatim>\<open>Failed to get session\<close>; a missing session is \<^verbatim>\<open>null\<close>.
\<close>

definition getSession :: "env \<Rightarrow> string \<Rightarrow> world \<Rightarrow> (js_exn + Session option) \<times> world" where
  "getSession env sessionId w0 =
     (let (failed, w1) = db_op env (emit (GetSession sessionId) w0)
      in if failed
         then (Inl (JsError ''Failed to get session''),
               emit (LogError ''Failed to get session'' sessionId) w1)
         else (Inr (map_of (sessions w1) sessionId), w1))"

text \<open>
  \<^verbatim>\<open>MemoryService.saveMessage\<close>: create the message row, then update the session's
  timestamp (which fails when the session row is missing). Either failure is rethrown as
  \<^verbatim>\<open>Failed to save message\<close>; the two operations are not in one transaction.
\<close>

definition saveMessage :: "env \<Rightarrow> string \<Rightarrow> ChatMessage \<Rightarrow> world \<Rightarrow> (js_exn + unit) \<times> world" where
  "saveMessage env sessionId message w0 =
     (let (failed1, w1) = db_op env (emit (SaveMessage sessionId message) w0)
      in if failed1
         then (Inl (JsError ''Failed to save message''),
               emit (LogError ''Failed to save message'' sessionId) w1)
         else
           (let w2 = w1\<lparr>messages := messages w1 @ [(sessionId, message)]\<rparr>;
                (now, w3) = Date_now env w2;
                (failed2, w4) = db_op env w3
            in case map_of (sessions w4) sessionId of
                 Some s \<Rightarrow>
                   if failed2
                   then (Inl (JsError ''Failed to save message''),
                         emit (LogError ''Failed to save message'' sessionId) w4)
                   else (Inr (),
                         w4\<lparr>sessions := AList.update sessionId (s\<lparr>updatedAt := now\<rparr>) (sessions w4)\<rparr>)
               | None \<Rightarrow>
                   (Inl (JsError ''Failed to save message''),
                    emit (LogError ''Failed to save message'' sessionId) w4)))"

text \<open>\<^verbatim>\<open>msg.name || undefined\<close>\<close>

fun or_undefined :: "string option \<Rightarrow> string option" where
  "or_undefined None = None"
| "or_undefined (Some s) = (if s = [] then None else Some s)"

text \<open>
  \<^verbatim>\<open>MemoryService.getMessages(sessionId)\<close> with the default limit of 100: the first 100
  messages of the session in creation order.
\<close>

definition getMessages :: "env \<Rightarrow> string \<Rightarrow> world \<Rightarrow> (js_exn + ChatMessage list) \<times> world" where
  "getMessages env sessionId w0 =
     (let (failed, w1) = db_op env (emit (GetMessages sessionId) w0)
      in if failed
         then (Inl (JsError ''Failed to get messages''),
               emit (LogError ''Failed to get messages'' sessionId) w1)
         else (Inr (map (\<lambda>(s, msg). \<lparr>role = role msg, content = content msg,
                                     msg_name = or_undefined (msg_name msg),
                                     toolCallId = or_undefined (toolCallId msg)\<rparr>)
                      (take 100 (filter (\<lambda>(s, msg). s = sessionId) (messages w1)))), w1))"


section \<open>Model client\<close>

text \<open>\<^verbatim>\<open>normalizeMessages\<close>, with \<^verbatim>\<open>msg.toolCallId || ''\<close> and \<^verbatim>\<open>if (msg.name)\<close>.\<close>

definition normalizeMessage :: "ChatMessage \<Rightarrow> wire_message" where
  "normalizeMessage msg =
     (case role msg of
        Tool \<Rightarrow> WireTool (content msg) (case or_undefined (toolCallId msg) of Some i \<Rightarrow> i | None \<Rightarrow> [])
      | Assistant \<Rightarrow> WireAssistant (content msg) (or_undefined (msg_name msg))
      | User \<Rightarrow> WireUser (content msg) (or_undefined (msg_name msg))
      | System \<Rightarrow> WireSystem (content msg))"

definition normalizeMessages :: "ChatMessage list \<Rightarrow> wire_message list" where
  "normalizeMessages msgs = map normalizeMessage msgs"

text \<open>\<^verbatim>\<open>openai.chat.completions.create\<close>: the provider's answer, and the call in the trace.\<close>

definition createCompletion ::
  "env \<Rightarrow> CompletionRequest \<Rightarrow> world \<Rightarrow> (js_exn + (js_exn + StreamChunk) list) \<times> world" where
  "createCompletion env req w = (provider env req, emit (CreateCompletion req) w)"

text \<open>
  The error a provider call throws, as \<^verbatim>\<open>handleOpenAIError\<close> inspects it: which of the
  client library's error classes it is an instance of (the class hierarchy belongs to the
  library, so the four tests are independent here), its status and its message.
\<close>

record thrown_error =
  is_APIError :: bool
  is_RateLimitError :: bool
  is_APIConnectionError :: bool
  is_APIConnectionTimeoutError :: bool
  err_status :: "int option"
  err_message :: string

text \<open>\<^verbatim>\<open>class APIError\<close> of the model client, without the wrapped original error.\<close>

record APIError =
  code :: string
  message :: string
  status :: "int option"

text \<open>\<^verbatim>\<open>a || b\<close> on strings\<close>

definition str_or :: "string \<Rightarrow> string \<Rightarrow> string" where
  "str_or a b = (if a \<noteq> [] then a else b)"

text \<open>The table \<^verbatim>\<open>errorCodes\<close>, indexed by status.\<close>

definition errorCodes :: "string \<Rightarrow> int \<Rightarrow> (string \<times> string) option" where
  "errorCodes msg st =
     (if st = 400 then Some (''BAD_REQUEST'', str_or msg ''Invalid request to OpenAI API'')
      else if st = 401 then Some (''UNAUTHORIZED'', ''Invalid API key or authentication failure'')
      else if st = 403 then Some (''FORBIDDEN'', ''Access to this resource is forbidden'')
      else if st = 404 then Some (''NOT_FOUND'', ''The requested resource was not found'')
      else if st = 429 then Some (''RATE_LIMITED'', ''Rate limit exceeded. Please retry later'')
      else if st = 500 then Some (''INTERNAL_ERROR'', ''OpenAI internal server error'')
      else if st = 503 then Some (''SERVICE_UNAVAILABLE'', ''OpenAI service is temporarily unavailable'')
      else None)"

definition handleOpenAIError :: "thrown_error \<Rightarrow> APIError" where
  "handleOpenAIError e =
     (if is_APIError e then
        (case (case err_status e of None \<Rightarrow> None | Some st \<Rightarrow> errorCodes (err_message e) st) of
           Some (c, m) \<Rightarrow> \<lparr>code = c, message = m, status = err_status e\<rparr>
         | None \<Rightarrow> \<lparr>code = ''UNKNOWN_ERROR'',
                     message = str_or (err_message e) ''An unknown error occurred'',
                     status = err_status e\<rparr>)
      else if is_RateLimitError e then
        \<lparr>code = ''RATE_LIMITED'', message = ''Rate limit exceeded. Please retry later'', status = Some 429\<rparr>
      else if is_APIConnectionError e then
        \<lparr>code = ''CONNECTION_ERROR'', message = ''Failed to connect to OpenAI API'', status = None\<rparr>
      else if is_APIConnectionTimeoutError e then
        \<lparr>code = ''TIMEOUT'', message = ''Request to OpenAI API timed out'', status = None\<rparr>
      else
        \<lparr>code = ''INTERNAL_ERROR'', message = ''An unexpected error occurred'', status = None\<rparr>)"

section \<open>Correlation identifier\<close>

text \<open>
  \<^verbatim>\<open>let correlationId: string | null = null\<close> is module state. \<^verbatim>\<open>getCorrelationId\<close> takes
  the value that \<^verbatim>\<open>randomUUID()\<close> would return and the state; \<^verbatim>\<open>!correlationId\<close> holds
  for \<^verbatim>\<open>null\<close> and for the empty string.
\<close>

definition getCorrelationId :: "string \<Rightarrow> string option \<Rightarrow> string \<times> string option" where
  "getCorrelationId uuid correlationId =
     (case correlationId of
        None \<Rightarrow> (uuid, Some uuid)
      | Some c \<Rightarrow> if c = [] then (uuid, Some uuid) else (c, Some c))"

definition setCorrelationId :: "string \<Rightarrow> string option \<Rightarrow> string option" where
  "setCorrelationId i correlationId = Some i"

text \<open>A sequence of calls of \<^verbatim>\<open>getCorrelationId\<close>, one fresh UUID offered to each.\<close>

fun getCorrelationIds :: "string list \<Rightarrow> string option \<Rightarrow> string list \<times> string option" where
  "getCorrelationIds [] s = ([], s)"
| "getCorrelationIds (u # us) s =
     (case getCorrelationId u s of
        (c, s') \<Rightarrow> (case getCorrelationIds us s' of (cs, s'') \<Rightarrow> (c # cs, s'')))"


section \<open>Chat service\<close>

record ChatRequest =
  chat_messages :: "ChatMessage list"
  chat_sessionId :: string
  chat_systemPrompt :: "string option"
  chat_model :: "string option"

definition defaultSystemPrompt :: string where
  "defaultSystemPrompt =
     ''You are AI Assistant, a helpful and harmless AI assistant.'' @ [CHR 0x0A] @
     ''You are designed to be helpful, harmless, and honest.'' @ [CHR 0x0A] @
     ''You should answer questions, help with tasks, and engage in conversation.'' @ [CHR 0x0A] @
     ''You have access to various tools that extend your capabilities.'' @ [CHR 0x0A] @
     ''Always be clear about what you can and cannot do.'' @ [CHR 0x0A] @
     ''If you cannot help with something, explain why politely.''"

text \<open>\<^verbatim>\<open>convertToOpenAITools\<close> copies name, description, properties and required list.\<close>

definition convertToOpenAITools :: "ToolDefinition list \<Rightarrow> ToolDefinition list" where
  "convertToOpenAITools tools =
     map (\<lambda>tool. \<lparr>tool_name = tool_name tool, tool_description = tool_description tool,
                  tool_parameters = \<lparr>properties = properties (tool_parameters tool),
                                     required = required (tool_parameters tool)\<rparr>\<rparr>) tools"

text \<open>A string that may be missing, read as a condition or under \<^verbatim>\<open>||\<close>.\<close>

fun opt_str :: "string option \<Rightarrow> string" where
  "opt_str None = []"
| "opt_str (Some s) = s"

text \<open>
  The inner loop \<^verbatim>\<open>for (const tc of choice.delta.toolCalls)\<close>. The buffer is a
  \<^verbatim>\<open>Map\<close>: \<^verbatim>\<open>set\<close> on a present key replaces the value in place, on a new key appends,
  and iteration follows insertion order.
\<close>

fun bufferToolCalls ::
  "(nat \<times> ToolCallFragment) list \<Rightarrow> ToolCallDelta list \<Rightarrow> (nat \<times> ToolCallFragment) list" where
  "bufferToolCalls buf [] = buf"
| "bufferToolCalls buf (tc # tcs) =
     (let existing = (case map_of buf (tc_index tc) of
                        Some e \<Rightarrow> e
                      | None \<Rightarrow> \<lparr>call_id = [], call_name = [], call_arguments = []\<rparr>)
      in bufferToolCalls
           (AList.update (tc_index tc)
              \<lparr>call_id = str_or (tc_id tc) (call_id existing),
               call_name = str_or (fn_name tc) (call_name existing),
               call_arguments = call_arguments existing @ fn_arguments tc\<rparr> buf)
           tcs)"

text \<open>
  The follow-up request: the default model, the session's system prompt (empty when the
  session or the prompt is missing) before the stored messages, no tools.
\<close>

definition continuationRequest :: "Session option \<Rightarrow> ChatMessage list \<Rightarrow> CompletionRequest" where
  "continuationRequest session msgs =
     \<lparr>req_model = ''gpt-4-turbo-preview'',
      req_messages = normalizeMessages
        (\<lparr>role = System,
          content = (case session of None \<Rightarrow> [] | Some s \<Rightarrow> opt_str (systemPrompt s)),
          msg_name = None, toolCallId = None\<rparr> # msgs),
      req_tools = None\<rparr>"

text \<open>
  The body of the \<^verbatim>\<open>try\<close> for one buffered tool call: parse, execute, persist the
  tool message, reload history and session, request the follow-up completion (whose answer
  is dropped), enqueue the tool-result chunk. The first failure ends it. \<^verbatim>\<open>Date.now()\<close>
  is an integer of at most 16 digits, which the template prints in plain digits.
\<close>

definition tryToolCall :: "env \<Rightarrow> string \<Rightarrow> ToolCallFragment \<Rightarrow> world \<Rightarrow> (js_exn + unit) \<times> world" where
  "tryToolCall env sessionId toolCall w0 =
     (case json_parse env (call_arguments toolCall) of
        Inl ex \<Rightarrow> (Inl ex, w0)
      | Inr args \<Rightarrow>
     (case executeTool env (call_name toolCall) args w0 of
        (Inl ex, w1) \<Rightarrow> (Inl ex, w1)
      | (Inr res, w1) \<Rightarrow>
     (case saveMessage env sessionId
             \<lparr>role = Tool, content = json_stringify env res,
              msg_name = Some (call_name toolCall), toolCallId = Some (call_id toolCall)\<rparr> w1 of
        (Inl ex, w2) \<Rightarrow> (Inl ex, w2)
      | (Inr u, w2) \<Rightarrow>
     (case getMessages env sessionId w2 of
        (Inl ex, w3) \<Rightarrow> (Inl ex, w3)
      | (Inr msgs, w3) \<Rightarrow>
     (case getSession env sessionId w3 of
        (Inl ex, w4) \<Rightarrow> (Inl ex, w4)
      | (Inr session, w4) \<Rightarrow>
     (case createCompletion env (continuationRequest session msgs) w4 of
        (Inl ex, w5) \<Rightarrow> (Inl ex, w5)
      | (Inr followUp, w5) \<Rightarrow>
          (let (t1, w6) = Date_now env w5;
               (t2, w7) = Date_now env w6
           in (Inr (),
               emit (EnqueueToolResult
                  \<lparr>chunk_id = ''tool-'' @ string_of_int t1,
                   created = t2 div 1000,
                   model = ''gpt-4-turbo-preview'',
                   choices = [\<lparr>choice_index = 0, delta_role = Some ''assistant'',
                               delta_content = ContentNull, delta_toolCalls = None,
                               finishReason = None\<rparr>]\<rparr>) w7))))))))"

text \<open>The \<^verbatim>\<open>try\<close>/\<^verbatim>\<open>catch\<close> around it: a failure is logged and nothing else.\<close>

definition runToolCall :: "env \<Rightarrow> string \<Rightarrow> ToolCallFragment \<Rightarrow> world \<Rightarrow> world" where
  "runToolCall env sessionId toolCall w =
     (case tryToolCall env sessionId toolCall w of
        (Inl ex, w') \<Rightarrow> emit (LogError ''Tool execution failed'' (error_message ex)) w'
      | (Inr u, w') \<Rightarrow> w')"

text \<open>\<^verbatim>\<open>for (const [, toolCall] of toolCallsBuffer)\<close>\<close>

fun executeToolCalls :: "env \<Rightarrow> string \<Rightarrow> ToolCallFragment list \<Rightarrow> world \<Rightarrow> world" where
  "executeToolCalls env sessionId [] w = w"
| "executeToolCalls env sessionId (toolCall # rest) w =
     executeToolCalls env sessionId rest (runToolCall env sessionId toolCall w)"

text \<open>\<^verbatim>\<open>if (choice.finishReason)\<close>: neither \<^verbatim>\<open>null\<close> nor empty.\<close>

definition hasFinish :: "Choice \<Rightarrow> bool" where
  "hasFinish choice = (opt_str (finishReason choice) \<noteq> [])"

text \<open>
  \<^verbatim>\<open>for (const choice of value.choices)\<close>: buffer the choice's tool-call deltas; on a
  finish reason set the flag and, for \<^verbatim>\<open>tool_calls\<close> with a non-empty buffer, run the
  buffered tool calls.
\<close>

fun processChoices ::
  "env \<Rightarrow> string \<Rightarrow> Choice list \<Rightarrow> (nat \<times> ToolCallFragment) list \<Rightarrow> bool \<Rightarrow> world
     \<Rightarrow> (nat \<times> ToolCallFragment) list \<times> bool \<times> world" where
  "processChoices env sessionId [] buf hasFinishReason w = (buf, hasFinishReason, w)"
| "processChoices env sessionId (choice # rest) buf hasFinishReason w =
     (let buf' = (case delta_toolCalls choice of
                    None \<Rightarrow> buf
                  | Some tcs \<Rightarrow> bufferToolCalls buf tcs)
      in if hasFinish choice
         then processChoices env sessionId rest buf' True
                (if finishReason choice = Some ''tool_calls'' \<and> buf' \<noteq> []
                 then executeToolCalls env sessionId (map snd buf') w
                 else w)
         else processChoices env sessionId rest buf' hasFinishReason w)"

text \<open>
  \<^verbatim>\<open>while (!hasFinishReason)\<close> in \<^verbatim>\<open>start\<close>. The input stream is the list of its reads,
  each a chunk or a failure; the end of the list is \<^verbatim>\<open>done\<close>. The result is the buffer
  and the world when \<^verbatim>\<open>start\<close> returns.
\<close>

fun readLoop ::
  "env \<Rightarrow> string \<Rightarrow> (js_exn + StreamChunk) list \<Rightarrow> (nat \<times> ToolCallFragment) list \<Rightarrow> world
     \<Rightarrow> (nat \<times> ToolCallFragment) list \<times> world" where
  "readLoop env sessionId [] buf w = (buf, emit ControllerClose w)"
| "readLoop env sessionId (Inl ex # rest) buf w = (buf, emit (ControllerError ex) w)"
| "readLoop env sessionId (Inr v # rest) buf w =
     (case processChoices env sessionId (choices v) buf False w of
        (buf', hasFinishReason, w') \<Rightarrow>
          if hasFinishReason then (buf', emit (Enqueue v) w')
          else readLoop env sessionId rest buf' (emit (Enqueue v) w'))"

definition transformStream :: "env \<Rightarrow> (js_exn + StreamChunk) list \<Rightarrow> string \<Rightarrow> world \<Rightarrow> world" where
  "transformStream env inputStream sessionId w = snd (readLoop env sessionId inputStream [] w)"

text \<open>The \<^verbatim>\<open>catch\<close> of \<^verbatim>\<open>processChat\<close>: whatever was thrown is not this module's
  \<^verbatim>\<open>APIError\<close>, so it is logged and wrapped.\<close>

definition chatFailed :: "js_exn \<Rightarrow> world \<Rightarrow> (APIError + unit) \<times> world" where
  "chatFailed ex w =
     (Inl \<lparr>code = ''CHAT_ERROR'', message = ''Failed to process chat'', status = None\<rparr>,
      emit (LogError ''Chat processing failed'' (error_message ex)) w)"

text \<open>
  The first request of an exchange: the requested or default model, the system prompt of
  the request, else of the session, else the default one, before the request's messages,
  and the registered tools when there are any.
\<close>

definition initialRequest :: "env \<Rightarrow> ChatRequest \<Rightarrow> Session \<Rightarrow> CompletionRequest" where
  "initialRequest env request session =
     \<lparr>req_model = str_or (opt_str (chat_model request)) ''gpt-4-turbo-preview'',
      req_messages = normalizeMessages
        (\<lparr>role = System,
          content = str_or (opt_str (chat_systemPrompt request))
                      (str_or (opt_str (systemPrompt session)) defaultSystemPrompt),
          msg_name = None, toolCallId = None\<rparr> # chat_messages request),
      req_tools = (if length (getRegisteredTools env) > 0
                   then Some (convertToOpenAITools (getRegisteredTools env))
                   else None)\<rparr>"

text \<open>
  \<^verbatim>\<open>ChatService.processChat\<close>: the result is the failure thrown, or the stream, whose
  content is what \<^verbatim>\<open>transformStream\<close> enqueues in the world returned.
\<close>

definition processChat :: "env \<Rightarrow> ChatRequest \<Rightarrow> world \<Rightarrow> (APIError + unit) \<times> world" where
  "processChat env request w0 =
     (case getSession env (chat_sessionId request) w0 of
        (Inl ex, w1) \<Rightarrow> chatFailed ex w1
      | (Inr None, w1) \<Rightarrow>
          chatFailed (JsError (''Session not found: '' @ chat_sessionId request)) w1
      | (Inr (Some session), w1) \<Rightarrow>
          (case createCompletion env (initialRequest env request session) w1 of
             (Inl ex, w2) \<Rightarrow> chatFailed ex w2
           | (Inr stream, w2) \<Rightarrow> (Inr (), transformStream env stream (chat_sessionId request) w2)))"



section \<open>Projections of the trace\<close>

text \<open>The tool executions requested, in order.\<close>

fun execution_of :: "event \<Rightarrow> (string \<times> jsval) list" where
  "execution_of (ExecuteTool n ps) = [(n, ps)]"
| "execution_of e = []"

definition executions :: "event list \<Rightarrow> (string \<times> jsval) list" where
  "executions es = concat (map execution_of es)"

text \<open>The calls of the tool implementations, in order.\<close>

fun invocation_of :: "event \<Rightarrow> (string \<times> jsval) list" where
  "invocation_of (ToolInvoked n ps) = [(n, ps)]"
| "invocation_of e = []"

definition invocations :: "event list \<Rightarrow> (string \<times> jsval) list" where
  "invocations es = concat (map invocation_of es)"

text \<open>The caller-facing stream: the chunks enqueued, in order.\<close>

fun enqueued_of :: "event \<Rightarrow> StreamChunk list" where
  "enqueued_of (Enqueue c) = [c]"
| "enqueued_of (EnqueueToolResult c) = [c]"
| "enqueued_of e = []"

definition enqueued :: "event list \<Rightarrow> StreamChunk list" where
  "enqueued es = concat (map enqueued_of es)"

text \<open>The chunks forwarded from the provider, without the tool-result chunks.\<close>

fun forwarded_of :: "event \<Rightarrow> StreamChunk list" where
  "forwarded_of (Enqueue c) = [c]"
| "forwarded_of e = []"

definition forwarded :: "event list \<Rightarrow> StreamChunk list" where
  "forwarded es = concat (map forwarded_of es)"

text \<open>Persisting a message and requesting a completion, as they alternate in a trace.\<close>

datatype phase = Persist | Continue

fun phase_of :: "event \<Rightarrow> phase list" where
  "phase_of (SaveMessage s m) = [Persist]"
| "phase_of (CreateCompletion r) = [Continue]"
| "phase_of e = []"

definition phases :: "event list \<Rightarrow> phase list" where
  "phases es = concat (map phase_of es)"

text \<open>The tool-call deltas of a choice and of a chunk, in order.\<close>

definition choice_deltas :: "Choice \<Rightarrow> ToolCallDelta list" where
  "choice_deltas choice = (case delta_toolCalls choice of None \<Rightarrow> [] | Some tcs \<Rightarrow> tcs)"

definition chunk_deltas :: "StreamChunk \<Rightarrow> ToolCallDelta list" where
  "chunk_deltas v = concat (map choice_deltas (choices v))"

text \<open>
  The chunks that the read loop takes from an input stream: all up to and including the
  first one with a finish reason, and none from a failed read on.
\<close>

fun consumed :: "(js_exn + StreamChunk) list \<Rightarrow> StreamChunk list" where
  "consumed [] = []"
| "consumed (Inl ex # rest) = []"
| "consumed (Inr v # rest) = (if list_ex hasFinish (choices v) then [v] else v # consumed rest)"

text \<open>The argument string buffered for an index; empty when the index is not buffered.\<close>

definition arguments_at :: "(nat \<times> ToolCallFragment) list \<Rightarrow> nat \<Rightarrow> string" where
  "arguments_at buf i = (case map_of buf i of None \<Rightarrow> [] | Some e \<Rightarrow> call_arguments e)"

text \<open>The errors signalled on the caller-facing stream (\<^verbatim>\<open>controller.error\<close>).\<close>

fun controller_error_of :: "event \<Rightarrow> js_exn list" where
  "controller_error_of (ControllerError ex) = [ex]"
| "controller_error_of e = []"

definition controller_errors :: "event list \<Rightarrow> js_exn list" where
  "controller_errors es = concat (map controller_error_of es)"

text \<open>
  The failed read, if any, that the read loop meets: none after a chunk with a finish
  reason.
\<close>

fun read_failure :: "(js_exn + StreamChunk) list \<Rightarrow> js_exn list" where
  "read_failure [] = []"
| "read_failure (Inl ex # rest) = [ex]"
| "read_failure (Inr v # rest) = (if list_ex hasFinish (choices v) then [] else read_failure rest)"

section \<open>The specification's wording, for comparison\<close>

text \<open>
  The error codes of the specification's taxonomy, for comparison with the codes that
  \<^verbatim>\<open>handleOpenAIError\<close> produces.
\<close>

definition spec_taxonomy :: "string list" where
  "spec_taxonomy =
     [''BAD_REQUEST'', ''UNAUTHORIZED'', ''FORBIDDEN'', ''NOT_FOUND'', ''RATE_LIMITED'',
      ''INTERNAL_ERROR'', ''CONNECTION_ERROR'', ''TIMEOUT'', ''UNKNOWN_ERROR'']"







section \<open>Frames and healthy runs\<close>

text \<open>The session table without the timestamps.\<close>

definition erase_time :: "(string \<times> Session) list \<Rightarrow> (string \<times> Session) list" where
  "erase_time ss = map (\<lambda>(k, s). (k, s\<lparr>updatedAt := 0\<rparr>)) ss"

text \<open>Messages of one session, all of role \<^verbatim>\<open>tool\<close>.\<close>

definition tool_only :: "string \<Rightarrow> (string \<times> ChatMessage) list \<Rightarrow> bool" where
  "tool_only sid new = list_all (\<lambda>sm. fst sm = sid \<and> role (snd sm) = Tool) new"

text \<open>
  A step that may append tool messages of the session to the store and touch session
  timestamps, and neither forwards a provider chunk nor errors the caller-facing stream.
\<close>

definition quiet_step :: "string \<Rightarrow> world \<Rightarrow> world \<Rightarrow> bool" where
  "quiet_step sid w w' =
     (take (length (messages w)) (messages w') = messages w
      \<and> tool_only sid (drop (length (messages w)) (messages w'))
      \<and> erase_time (sessions w') = erase_time (sessions w)
      \<and> map fst (sessions w') = map fst (sessions w)
      \<and> forwarded (trace w') = forwarded (trace w)
      \<and> controller_errors (trace w') = controller_errors (trace w))"

text \<open>The same without the conditions on the trace.\<close>

definition store_frame :: "string \<Rightarrow> world \<Rightarrow> world \<Rightarrow> bool" where
  "store_frame sid w w' =
     (take (length (messages w)) (messages w') = messages w
      \<and> tool_only sid (drop (length (messages w)) (messages w'))
      \<and> erase_time (sessions w') = erase_time (sessions w)
      \<and> map fst (sessions w') = map fst (sessions w))"

text \<open>An environment whose database never fails and whose provider never throws.\<close>

definition healthy :: "env \<Rightarrow> bool" where
  "healthy env = ((\<forall>k. \<not> db_fails env k) \<and> (\<forall>req. \<exists>s. provider env req = Inr s))"

text \<open>The tool message persisted for a buffered tool call and its result.\<close>

definition tool_message :: "env \<Rightarrow> ToolCallFragment \<Rightarrow> ToolResult \<Rightarrow> ChatMessage" where
  "tool_message env tc res =
     \<lparr>role = Tool, content = json_stringify env res,
      msg_name = Some (call_name tc), toolCallId = Some (call_id tc)\<rparr>"

text \<open>
  What \<^verbatim>\<open>JSON.parse\<close> makes of a fragment's argument string, and whether that is an
  object.
\<close>

definition parsed_arguments :: "env \<Rightarrow> ToolCallFragment \<Rightarrow> jsval" where
  "parsed_arguments env tc = (case json_parse env (call_arguments tc) of Inr v \<Rightarrow> v | Inl ex \<Rightarrow> JUndefined)"

definition parses_to_object :: "env \<Rightarrow> ToolCallFragment \<Rightarrow> bool" where
  "parses_to_object env tc =
     (case json_parse env (call_arguments tc) of Inr (JObj kvs) \<Rightarrow> True | _ \<Rightarrow> False)"

section \<open>A concrete environment\<close>

text \<open>
  An environment in which nothing fails: the clock advances by one millisecond per
  reading, every tool succeeds at once, and the provider answers a request that offers
  tools with one chunk that calls \<^verbatim>\<open>web_search\<close> and finishes with \<^verbatim>\<open>tool_calls\<close>, and
  a request without tools (a continuation) with one chunk of text. \<open>demo_parse\<close> and
  \<open>demo_stringify\<close> agree with \<^verbatim>\<open>JSON.parse\<close> and \<^verbatim>\<open>JSON.stringify\<close> on the
  strings and results that occur.
\<close>

definition demo_parse :: "string \<Rightarrow> js_exn + jsval" where
  \<open>demo_parse s =
     (if s = ''{}'' then Inr (JObj [])
      else if s = ''{"query":"hi"}'' then Inr (JObj [(''query'', JStr ''hi'')])
      else Inl (JsError ''Unexpected end of JSON input''))\<close>

definition demo_stringify :: "ToolResult \<Rightarrow> string" where
  \<open>demo_stringify r =
     (if success r
      then ''{"success":true,"executionTimeMs":'' @ string_of_int (executionTimeMs r) @ ''}''
      else ''{"success":false,"error":"'' @ opt_str (error r) @ ''","executionTimeMs":''
             @ string_of_int (executionTimeMs r) @ ''}'')\<close>

definition demo_impl :: "string \<Rightarrow> jsval \<Rightarrow> js_exn + ToolResult" where
  "demo_impl n ps = Inr \<lparr>success = True, result = None, error = None, executionTimeMs = 0\<rparr>"

definition text_chunk :: "string \<Rightarrow> string option \<Rightarrow> StreamChunk" where
  "text_chunk s fin =
     \<lparr>chunk_id = ''chatcmpl-2'', created = 2, model = ''gpt-4-turbo-preview'',
      choices = [\<lparr>choice_index = 0, delta_role = None, delta_content = ContentText s,
                  delta_toolCalls = None, finishReason = fin\<rparr>]\<rparr>"

definition tool_chunk :: "ToolCallDelta list \<Rightarrow> string option \<Rightarrow> StreamChunk" where
  "tool_chunk tcs fin =
     \<lparr>chunk_id = ''chatcmpl-1'', created = 1, model = ''gpt-4-turbo-preview'',
      choices = [\<lparr>choice_index = 0, delta_role = None, delta_content = ContentAbsent,
                  delta_toolCalls = Some tcs, finishReason = fin\<rparr>]\<rparr>"

definition delta :: "nat \<Rightarrow> string \<Rightarrow> string \<Rightarrow> string \<Rightarrow> ToolCallDelta" where
  "delta i c n a = \<lparr>tc_index = i, tc_id = c, fn_name = n, fn_arguments = a\<rparr>"

text \<open>One tool call, complete in the chunk that finishes the turn.\<close>

definition one_call_stream :: "(js_exn + StreamChunk) list" where
  \<open>one_call_stream =
     [Inr (tool_chunk [delta 0 ''call_a'' ''web_search'' ''{"query":"hi"}''] (Some ''tool_calls''))]\<close>

text \<open>Two tool calls; the delta of index 1 arrives before the delta of index 0.\<close>

definition two_call_stream :: "(js_exn + StreamChunk) list" where
  \<open>two_call_stream =
     [Inr (tool_chunk [delta 1 ''call_b'' ''web_search'' ''{"query":"hi"}''] None),
      Inr (tool_chunk [delta 0 ''call_a'' ''nonexistent_tool'' ''{}''] None),
      Inr (tool_chunk [] (Some ''tool_calls''))]\<close>

text \<open>One tool call whose argument string is cut short.\<close>

definition malformed_stream :: "(js_exn + StreamChunk) list" where
  \<open>malformed_stream =
     [Inr (tool_chunk [delta 0 ''call_a'' ''web_search'' ''{"query":''] (Some ''tool_calls''))]\<close>

definition demo_provider :: "CompletionRequest \<Rightarrow> js_exn + (js_exn + StreamChunk) list" where
  "demo_provider req =
     (case req_tools req of
        None \<Rightarrow> Inr [Inr (text_chunk ''continued'' (Some ''stop''))]
      | Some tools \<Rightarrow> Inr one_call_stream)"

definition demo_env :: env where
  "demo_env =
     \<lparr>clock = (\<lambda>k. 1000 + int k), db_fails = (\<lambda>k. False),
      json_parse = demo_parse, json_stringify = demo_stringify,
      registry = toolRegistry demo_impl, provider = demo_provider\<rparr>"

definition demo_session :: Session where
  "demo_session =
     \<lparr>session_id = ''s1'', userId = ''u1'', title = ''Demo'',
      systemPrompt = Some ''Be brief.'', updatedAt = 0\<rparr>"

definition demo_world :: world where
  "demo_world =
     \<lparr>tick = 0, db_ops = 0, sessions = [(''s1'', demo_session)], messages = [], trace = []\<rparr>"

definition demo_request :: ChatRequest where
  "demo_request =
     \<lparr>chat_messages = [\<lparr>role = User, content = ''Search for hi'', msg_name = None, toolCallId = None\<rparr>],
      chat_sessionId = ''s1'', chat_systemPrompt = None, chat_model = None\<rparr>"

text \<open>
  What the run on \<open>one_call_stream\<close> persists, requests and enqueues after the tool call.
\<close>

definition demo_tool_message :: ChatMessage where
  \<open>demo_tool_message =
     \<lparr>role = Tool, content = ''{"success":true,"executionTimeMs":0}'',
      msg_name = Some ''web_search'', toolCallId = Some ''call_a''\<rparr>\<close>

definition demo_continuation :: CompletionRequest where
  \<open>demo_continuation =
     \<lparr>req_model = ''gpt-4-turbo-preview'',
      req_messages = [WireSystem ''Be brief.'',
                      WireTool ''{"success":true,"executionTimeMs":0}'' ''call_a''],
      req_tools = None\<rparr>\<close>

definition demo_tool_result_chunk :: StreamChunk where
  "demo_tool_result_chunk =
     \<lparr>chunk_id = ''tool-1002'', created = 1, model = ''gpt-4-turbo-preview'',
      choices = [\<lparr>choice_index = 0, delta_role = Some ''assistant'',
                  delta_content = ContentNull, delta_toolCalls = None,
                  finishReason = None\<rparr>]\<rparr>"

text \<open>An error of the client library's \<^verbatim>\<open>APIError\<close> class proper, with a status.\<close>

definition api_error :: "int option \<Rightarrow> string \<Rightarrow> thrown_error" where
  "api_error st msg =
     \<lparr>is_APIError = True, is_RateLimitError = False, is_APIConnectionError = False,
      is_APIConnectionTimeoutError = False, err_status = st, err_message = msg\<rparr>"



section \<open>Properties of the tool registry\<close>

text \<open>
  C7. For every name that is not in the tool registry and every parameter value,
  \<^verbatim>\<open>executeTool\<close> returns (it does not throw) the result with \<^verbatim>\<open>success = false\<close> and
  the error \<^verbatim>\<open>Tool not found: <name>\<close>; its execution time is the difference of the two
  clock readings it takes, which is not negative when the clock does not run backwards
  between them.
\<close>

theorem executeTool_unknown_tool:
  assumes "map_of (registry env) toolName = None"
      and "clock env (tick w) \<le> clock env (Suc (tick w))"
  shows "\<exists>r w'. executeTool env toolName parameters w = (Inr r, w')
           \<and> r = \<lparr>success = False, result = None,
                   error = Some (''Tool not found: '' @ toolName),
                   executionTimeMs = clock env (Suc (tick w)) - clock env (tick w)\<rparr>
           \<and> 0 \<le> executionTimeMs r
           \<and> invocations (trace w') = invocations (trace w)"
  using assms
  by (simp add: executeTool_def Date_now_def emit_def invocations_def)

theorem executeTool_unknown_tool_witness:
  "map_of (registry demo_env) ''nonexistent_tool'' = None
   \<and> clock demo_env (tick demo_world) \<le> clock demo_env (Suc (tick demo_world))
   \<and> fst (executeTool demo_env ''nonexistent_tool'' (JObj []) demo_world) =
       Inr \<lparr>success = False, result = None,
            error = Some ''Tool not found: nonexistent_tool'', executionTimeMs = 1\<rparr>"
proof -
  have a: "map_of (registry demo_env) ''nonexistent_tool'' = None"
    by (simp add: demo_env_def toolRegistry_def builtin_def)
  have b: "clock demo_env (tick demo_world) \<le> clock demo_env (Suc (tick demo_world))"
    by (simp add: demo_env_def)
  from executeTool_unknown_tool [OF a b, of "JObj []"]
  show ?thesis using a b by (auto simp: demo_env_def demo_world_def)
qed

section \<open>Properties of the correlation identifier\<close>

lemma getCorrelationIds_fixed:
  "c \<noteq> [] \<Longrightarrow> getCorrelationIds us (Some c) = (replicate (length us) c, Some c)"
  by (induction us) (simp_all add: getCorrelationId_def)

lemma getCorrelationId_nonempty:
  "u \<noteq> [] \<Longrightarrow> getCorrelationId u s = (c, s') \<Longrightarrow> c \<noteq> [] \<and> s' = Some c"
  by (auto simp: getCorrelationId_def split: option.splits if_splits)

text \<open>
  C10. The correlation identifier is one piece of module state, not keyed by request,
  exchange or user. From any state of it, a sequence of calls of \<^verbatim>\<open>getCorrelationId\<close>
  returns the identifier of the first call every time, whatever UUID is generated for the
  later calls, and leaves that identifier stored; after \<^verbatim>\<open>setCorrelationId\<close> with a
  non-empty identifier every call returns the identifier that was set. (\<^verbatim>\<open>randomUUID\<close>
  never returns the empty string, which is the hypothesis on the first UUID.)
\<close>

theorem getCorrelationId_process_global:
  assumes "u0 \<noteq> []"
  shows "fst (getCorrelationIds (u0 # us) s) = replicate (Suc (length us)) (fst (getCorrelationId u0 s))
         \<and> snd (getCorrelationIds (u0 # us) s) = Some (fst (getCorrelationId u0 s))
         \<and> (i \<noteq> [] \<longrightarrow> fst (getCorrelationIds us (setCorrelationId i s)) = replicate (length us) i)"
proof -
  obtain c s' where g: "getCorrelationId u0 s = (c, s')"
    by (cases "getCorrelationId u0 s")
  from getCorrelationId_nonempty [OF assms g] have c: "c \<noteq> []" and s': "s' = Some c"
    by simp_all
  show ?thesis
    using g c s' by (simp add: getCorrelationIds_fixed setCorrelationId_def)
qed

theorem getCorrelationId_process_global_witness:
  "''uuid-1'' \<noteq> []
   \<and> fst (getCorrelationIds [''uuid-1'', ''uuid-2'', ''uuid-3''] None) = [''uuid-1'', ''uuid-1'', ''uuid-1'']
   \<and> fst (getCorrelationIds [''uuid-2'', ''uuid-3''] (setCorrelationId ''req-7'' None)) = [''req-7'', ''req-7'']"
proof -
  have h: "''uuid-1'' \<noteq> []" by simp
  from getCorrelationId_process_global [OF h, of "[''uuid-2'', ''uuid-3'']" None "''req-7''"]
  show ?thesis by (simp add: getCorrelationId_def)
qed

section \<open>Properties of the fragment buffer\<close>

lemma bufferToolCalls_append:
  "bufferToolCalls buf (xs @ ys) = bufferToolCalls (bufferToolCalls buf xs) ys"
  by (induction xs arbitrary: buf) (simp_all add: Let_def)

lemma arguments_at_bufferToolCalls:
  "arguments_at (bufferToolCalls buf ds) i =
     arguments_at buf i @ concat (map fn_arguments (filter (\<lambda>tc. tc_index tc = i) ds))"
  by (induction ds arbitrary: buf)
     (auto simp: arguments_at_def Let_def update_conv' split: option.splits)

lemma processChoices_buffer:
  "fst (processChoices env sid chs buf fin w) = bufferToolCalls buf (concat (map choice_deltas chs))"
  by (induction chs arbitrary: buf fin w)
     (auto simp: Let_def choice_deltas_def bufferToolCalls_append split: option.splits)

lemma processChoices_flag:
  "fst (snd (processChoices env sid chs buf fin w)) = (fin \<or> list_ex hasFinish chs)"
  by (induction chs arbitrary: buf fin w) (auto simp: Let_def)

lemma readLoop_buffer:
  "fst (readLoop env sid rs buf w) = bufferToolCalls buf (concat (map chunk_deltas (consumed rs)))"
proof (induction rs arbitrary: buf w)
  case Nil
  then show ?case by simp
next
  case (Cons r rs)
  show ?case
  proof (cases r)
    case (Inl ex)
    then show ?thesis by simp
  next
    case (Inr v)
    obtain b f w' where p: "processChoices env sid (choices v) buf False w = (b, f, w')"
      by (cases "processChoices env sid (choices v) buf False w")
    from p processChoices_buffer [of env sid "choices v" buf False w]
    have b: "b = bufferToolCalls buf (chunk_deltas v)"
      by (simp add: chunk_deltas_def)
    from p processChoices_flag [of env sid "choices v" buf False w]
    have f: "f = list_ex hasFinish (choices v)"
      by simp
    show ?thesis
      using Inr p b f Cons.IH by (simp add: bufferToolCalls_append)
  qed
qed

text \<open>
  C4. When the read loop ends, the argument string buffered for an index is what was
  buffered before, followed by the argument fragments of that index from the chunks read,
  concatenated in arrival order, and by nothing else: however an argument string is cut
  into chunks, the buffered string, and so what \<^verbatim>\<open>JSON.parse\<close> is given, is the same.
\<close>

theorem arguments_concatenated_in_arrival_order:
  "arguments_at (fst (readLoop env sid rs buf w)) i =
     arguments_at buf i
       @ concat (map fn_arguments
           (filter (\<lambda>tc. tc_index tc = i) (concat (map chunk_deltas (consumed rs)))))"
  by (simp add: readLoop_buffer arguments_at_bufferToolCalls)

theorem arguments_concatenated_witness:
  \<open>arguments_at (fst (readLoop demo_env ''s1''
       [Inr (tool_chunk [delta 0 ''call_0'' ''web_search'' ''{"query":''] None),
        Inr (tool_chunk [delta 0 [] [] ''"hi"}''] None)] [] demo_world)) 0 = ''{"query":"hi"}''
   \<and> arguments_at (fst (readLoop demo_env ''s1''
       [Inr (tool_chunk [delta 0 ''call_0'' ''web_search'' ''{"query":"hi"}''] None)] [] demo_world)) 0
       = ''{"query":"hi"}''\<close>
  using arguments_concatenated_in_arrival_order [of demo_env "''s1''"
          \<open>[Inr (tool_chunk [delta 0 ''call_0'' ''web_search'' ''{"query":''] None),
            Inr (tool_chunk [delta 0 [] [] ''"hi"}''] None)]\<close> "[]" demo_world 0]
        arguments_concatenated_in_arrival_order [of demo_env "''s1''"
          \<open>[Inr (tool_chunk [delta 0 ''call_0'' ''web_search'' ''{"query":"hi"}''] None)]\<close>
          "[]" demo_world 0]
  by (simp add: tool_chunk_def delta_def hasFinish_def chunk_deltas_def choice_deltas_def
        arguments_at_def)

section \<open>Properties of the error mapping\<close>

lemma handleOpenAIError_api_status:
  assumes "is_APIError e" and "err_status e = Some st"
  shows "code (handleOpenAIError e) =
           (if st = 400 then ''BAD_REQUEST'' else if st = 401 then ''UNAUTHORIZED''
            else if st = 403 then ''FORBIDDEN'' else if st = 404 then ''NOT_FOUND''
            else if st = 429 then ''RATE_LIMITED'' else if st = 500 then ''INTERNAL_ERROR''
            else if st = 503 then ''SERVICE_UNAVAILABLE'' else ''UNKNOWN_ERROR'')"
    and "status (handleOpenAIError e) = Some st"
    and "st = 429 \<Longrightarrow> message (handleOpenAIError e) = ''Rate limit exceeded. Please retry later''"
  using assms by (simp_all add: handleOpenAIError_def errorCodes_def)

lemma handleOpenAIError_api_no_status:
  assumes "is_APIError e" and "err_status e = None"
  shows "code (handleOpenAIError e) = ''UNKNOWN_ERROR''" and "status (handleOpenAIError e) = None"
  using assms by (simp_all add: handleOpenAIError_def)

lemma handleOpenAIError_other:
  assumes "\<not> is_APIError e"
  shows "code (handleOpenAIError e) =
           (if is_RateLimitError e then ''RATE_LIMITED''
            else if is_APIConnectionError e then ''CONNECTION_ERROR''
            else if is_APIConnectionTimeoutError e then ''TIMEOUT'' else ''INTERNAL_ERROR'')"
    and "is_RateLimitError e \<Longrightarrow> status (handleOpenAIError e) = Some 429"
  using assms by (simp_all add: handleOpenAIError_def)

text \<open>
  C6, as stated, fails: an upstream error with status 503 is a 5xx error, and it is mapped
  to \<^verbatim>\<open>SERVICE_UNAVAILABLE\<close>, which is neither \<^verbatim>\<open>INTERNAL_ERROR\<close> nor any code of the
  specification's taxonomy.
\<close>

theorem handleOpenAIError_503_counterexample:
  "code (handleOpenAIError (api_error (Some 503) ''Service Unavailable'')) = ''SERVICE_UNAVAILABLE''
   \<and> code (handleOpenAIError (api_error (Some 503) ''Service Unavailable'')) \<noteq> ''INTERNAL_ERROR''
   \<and> code (handleOpenAIError (api_error (Some 503) ''Service Unavailable'')) \<notin> set spec_taxonomy"
  by (simp add: handleOpenAIError_def api_error_def errorCodes_def spec_taxonomy_def)

text \<open>
  C6, amended. For an error of the client library's API error class the code follows the
  status: 400 \<^verbatim>\<open>BAD_REQUEST\<close>, 401 \<^verbatim>\<open>UNAUTHORIZED\<close>, 403 \<^verbatim>\<open>FORBIDDEN\<close>, 404
  \<^verbatim>\<open>NOT_FOUND\<close>, 429 \<^verbatim>\<open>RATE_LIMITED\<close> with the message to retry later, 500
  \<^verbatim>\<open>INTERNAL_ERROR\<close>, 503 \<^verbatim>\<open>SERVICE_UNAVAILABLE\<close>, every other or missing status
  \<^verbatim>\<open>UNKNOWN_ERROR\<close>, and the status is kept. For any other error the class decides, in this
  order: rate limit \<^verbatim>\<open>RATE_LIMITED\<close> with status 429, connection \<^verbatim>\<open>CONNECTION_ERROR\<close>,
  connection timeout \<^verbatim>\<open>TIMEOUT\<close>, anything else \<^verbatim>\<open>INTERNAL_ERROR\<close>. No code outside the
  taxonomy extended by \<^verbatim>\<open>SERVICE_UNAVAILABLE\<close> is produced.
\<close>

theorem handleOpenAIError_taxonomy:
  "(is_APIError e \<longrightarrow>
      (err_status e = Some 400 \<longrightarrow> code (handleOpenAIError e) = ''BAD_REQUEST'')
    \<and> (err_status e = Some 401 \<longrightarrow> code (handleOpenAIError e) = ''UNAUTHORIZED'')
    \<and> (err_status e = Some 403 \<longrightarrow> code (handleOpenAIError e) = ''FORBIDDEN'')
    \<and> (err_status e = Some 404 \<longrightarrow> code (handleOpenAIError e) = ''NOT_FOUND'')
    \<and> (err_status e = Some 429 \<longrightarrow> code (handleOpenAIError e) = ''RATE_LIMITED''
          \<and> message (handleOpenAIError e) = ''Rate limit exceeded. Please retry later'')
    \<and> (err_status e = Some 500 \<longrightarrow> code (handleOpenAIError e) = ''INTERNAL_ERROR'')
    \<and> (err_status e = Some 503 \<longrightarrow> code (handleOpenAIError e) = ''SERVICE_UNAVAILABLE'')
    \<and> (err_status e \<notin> Some ` {400, 401, 403, 404, 429, 500, 503}
          \<longrightarrow> code (handleOpenAIError e) = ''UNKNOWN_ERROR'')
    \<and> status (handleOpenAIError e) = err_status e)
   \<and> (\<not> is_APIError e \<longrightarrow>
      (is_RateLimitError e \<longrightarrow> code (handleOpenAIError e) = ''RATE_LIMITED''
          \<and> status (handleOpenAIError e) = Some 429)
    \<and> (\<not> is_RateLimitError e \<and> is_APIConnectionError e
          \<longrightarrow> code (handleOpenAIError e) = ''CONNECTION_ERROR'')
    \<and> (\<not> is_RateLimitError e \<and> \<not> is_APIConnectionError e \<and> is_APIConnectionTimeoutError e
          \<longrightarrow> code (handleOpenAIError e) = ''TIMEOUT'')
    \<and> (\<not> is_RateLimitError e \<and> \<not> is_APIConnectionError e \<and> \<not> is_APIConnectionTimeoutError e
          \<longrightarrow> code (handleOpenAIError e) = ''INTERNAL_ERROR''))
   \<and> code (handleOpenAIError e) \<in> set (''SERVICE_UNAVAILABLE'' # spec_taxonomy)"
proof (cases "is_APIError e")
  case False
  have mem: "code (handleOpenAIError e) \<in> set (''SERVICE_UNAVAILABLE'' # spec_taxonomy)"
    unfolding handleOpenAIError_other(1) [OF False] spec_taxonomy_def by simp
  show ?thesis
    using False mem handleOpenAIError_other [OF False] by simp
next
  case True
  show ?thesis
  proof (cases "err_status e")
    case None
    have mem: "code (handleOpenAIError e) \<in> set (''SERVICE_UNAVAILABLE'' # spec_taxonomy)"
      unfolding handleOpenAIError_api_no_status(1) [OF True None] spec_taxonomy_def by simp
    show ?thesis
      using True None mem handleOpenAIError_api_no_status [OF True None] by simp
  next
    case (Some st)
    note c = handleOpenAIError_api_status(1) [OF True Some]
    have mem: "code (handleOpenAIError e) \<in> set (''SERVICE_UNAVAILABLE'' # spec_taxonomy)"
      unfolding c spec_taxonomy_def by simp
    have unk: "st \<notin> {400, 401, 403, 404, 429, 500, 503} \<Longrightarrow> code (handleOpenAIError e) = ''UNKNOWN_ERROR''"
      unfolding c by simp
    have k: "st = 400 \<Longrightarrow> code (handleOpenAIError e) = ''BAD_REQUEST''"
      "st = 401 \<Longrightarrow> code (handleOpenAIError e) = ''UNAUTHORIZED''"
      "st = 403 \<Longrightarrow> code (handleOpenAIError e) = ''FORBIDDEN''"
      "st = 404 \<Longrightarrow> code (handleOpenAIError e) = ''NOT_FOUND''"
      "st = 429 \<Longrightarrow> code (handleOpenAIError e) = ''RATE_LIMITED''"
      "st = 500 \<Longrightarrow> code (handleOpenAIError e) = ''INTERNAL_ERROR''"
      "st = 503 \<Longrightarrow> code (handleOpenAIError e) = ''SERVICE_UNAVAILABLE''"
      unfolding c by simp_all
    have img: "err_status e \<notin> Some ` {400, 401, 403, 404, 429, 500, 503}
                 \<Longrightarrow> st \<notin> {400, 401, 403, 404, 429, 500, 503}"
      using Some by blast
    show ?thesis
      using True Some mem k unk img handleOpenAIError_api_status(2,3) [OF True Some]
      by (intro conjI impI) (simp_all only: option.inject simp_thms)
  qed
qed

theorem handleOpenAIError_taxonomy_witness:
  "is_APIError (api_error (Some 429) ''Too Many Requests'')
   \<and> err_status (api_error (Some 429) ''Too Many Requests'') = Some 429
   \<and> code (handleOpenAIError (api_error (Some 429) ''Too Many Requests'')) = ''RATE_LIMITED''
   \<and> message (handleOpenAIError (api_error (Some 429) ''Too Many Requests''))
       = ''Rate limit exceeded. Please retry later''"
  using handleOpenAIError_taxonomy [of "api_error (Some 429) ''Too Many Requests''"]
  by (simp add: api_error_def)

section \<open>Properties of schema validation\<close>


lemma checkRequired_object:
  "checkRequired (JObj kvs) req =
     (case find (\<lambda>f. \<not> (f \<in> set (map fst kvs) \<or> f \<in> set object_prototype_keys)
                      \<or> js_get (JObj kvs) f = Value JUndefined
                      \<or> js_get (JObj kvs) f = Value JNull) req of
        None \<Rightarrow> Inr None
      | Some f \<Rightarrow> Inr (Some (''Missing required field: '' @ f)))"
  by (induction req) simp_all










section \<open>Effects of the collaborators\<close>

lemmas proj_defs = executions_def invocations_def phases_def forwarded_def enqueued_def
  controller_errors_def

lemma executeTool_effects:
  assumes "executeTool env n ps w = (r, w')"
  shows "messages w' = messages w" and "sessions w' = sessions w" and "db_ops w' = db_ops w"
    and "executions (trace w') = executions (trace w) @ [(n, ps)]"
    and "phases (trace w') = phases (trace w)"
    and "forwarded (trace w') = forwarded (trace w)"
    and "enqueued (trace w') = enqueued (trace w)"
    and "controller_errors (trace w') = controller_errors (trace w)"
  using assms
  by (auto simp: executeTool_def Date_now_def emit_def proj_defs Let_def
           split: option.splits sum.splits if_splits)

lemma getSession_effects:
  assumes "getSession env sid w = (r, w')"
  shows "messages w' = messages w" and "sessions w' = sessions w"
    and "executions (trace w') = executions (trace w)"
    and "phases (trace w') = phases (trace w)"
    and "forwarded (trace w') = forwarded (trace w)"
    and "enqueued (trace w') = enqueued (trace w)"
    and "controller_errors (trace w') = controller_errors (trace w)"
  using assms
  by (auto simp: getSession_def db_op_def emit_def proj_defs Let_def split: if_splits)

lemma getMessages_effects:
  assumes "getMessages env sid w = (r, w')"
  shows "messages w' = messages w" and "sessions w' = sessions w"
    and "executions (trace w') = executions (trace w)"
    and "phases (trace w') = phases (trace w)"
    and "forwarded (trace w') = forwarded (trace w)"
    and "enqueued (trace w') = enqueued (trace w)"
    and "controller_errors (trace w') = controller_errors (trace w)"
  using assms
  by (auto simp: getMessages_def db_op_def emit_def proj_defs Let_def split: if_splits)

lemma createCompletion_effects:
  assumes "createCompletion env req w = (r, w')"
  shows "messages w' = messages w" and "sessions w' = sessions w"
    and "executions (trace w') = executions (trace w)"
    and "phases (trace w') = phases (trace w) @ [Continue]"
    and "forwarded (trace w') = forwarded (trace w)"
    and "enqueued (trace w') = enqueued (trace w)"
    and "controller_errors (trace w') = controller_errors (trace w)"
  using assms
  by (auto simp: createCompletion_def emit_def proj_defs)

lemma erase_time_update:
  "map_of ss k = Some s \<Longrightarrow> erase_time (AList.update k (s\<lparr>updatedAt := t\<rparr>) ss) = erase_time ss"
  by (induction ss) (auto simp: erase_time_def)

lemma keys_update:
  "map_of ss k = Some s \<Longrightarrow> map fst (AList.update k v ss) = map fst ss"
  by (induction ss) auto

lemma saveMessage_effects:
  assumes "saveMessage env sid m w = (r, w')"
  shows "messages w' = messages w \<or> messages w' = messages w @ [(sid, m)]"
    and "erase_time (sessions w') = erase_time (sessions w)"
    and "map fst (sessions w') = map fst (sessions w)"
    and "executions (trace w') = executions (trace w)"
    and "phases (trace w') = phases (trace w) @ [Persist]"
    and "forwarded (trace w') = forwarded (trace w)"
    and "enqueued (trace w') = enqueued (trace w)"
    and "controller_errors (trace w') = controller_errors (trace w)"
  using assms
  by (auto simp: saveMessage_def db_op_def Date_now_def emit_def proj_defs Let_def
                 erase_time_update keys_update
           split: if_splits option.splits)

section \<open>Frame of a tool call\<close>

lemma quiet_stepI:
  assumes "messages w' = messages w @ new" and "tool_only sid new"
      and "erase_time (sessions w') = erase_time (sessions w)"
      and "map fst (sessions w') = map fst (sessions w)"
      and "forwarded (trace w') = forwarded (trace w)"
      and "controller_errors (trace w') = controller_errors (trace w)"
  shows "quiet_step sid w w'"
  using assms by (simp add: quiet_step_def)

lemma quiet_stepD:
  assumes "quiet_step sid w w'"
  shows "\<exists>new. messages w' = messages w @ new \<and> tool_only sid new"
    and "erase_time (sessions w') = erase_time (sessions w)"
    and "map fst (sessions w') = map fst (sessions w)"
    and "forwarded (trace w') = forwarded (trace w)"
    and "controller_errors (trace w') = controller_errors (trace w)"
proof -
  from assms have "messages w' = messages w @ drop (length (messages w)) (messages w')"
    by (metis append_take_drop_id quiet_step_def)
  with assms show "\<exists>new. messages w' = messages w @ new \<and> tool_only sid new"
    unfolding quiet_step_def by blast
qed (use assms in \<open>simp_all add: quiet_step_def\<close>)

lemma quiet_step_refl: "quiet_step sid w w"
  by (simp add: quiet_step_def tool_only_def)

lemma quiet_step_trans:
  assumes "quiet_step sid w1 w2" and "quiet_step sid w2 w3"
  shows "quiet_step sid w1 w3"
proof -
  from quiet_stepD(1) [OF assms(1)] obtain n1 where
    n1: "messages w2 = messages w1 @ n1" "tool_only sid n1" by blast
  from quiet_stepD(1) [OF assms(2)] obtain n2 where
    n2: "messages w3 = messages w2 @ n2" "tool_only sid n2" by blast
  show ?thesis
  proof (rule quiet_stepI)
    show "messages w3 = messages w1 @ (n1 @ n2)" using n1 n2 by simp
    show "tool_only sid (n1 @ n2)" using n1 n2 by (simp add: tool_only_def)
  qed (use quiet_stepD(2-5) [OF assms(1)] quiet_stepD(2-5) [OF assms(2)] in simp_all)
qed

lemma executeTool_frame: "executeTool env n ps w = (r, w') \<Longrightarrow> quiet_step sid w w'"
  by (rule quiet_stepI [where new = "[]"])
     (simp_all add: executeTool_effects tool_only_def)

lemma getSession_frame: "getSession env s w = (r, w') \<Longrightarrow> quiet_step sid w w'"
  by (rule quiet_stepI [where new = "[]"])
     (simp_all add: getSession_effects tool_only_def)

lemma getMessages_frame: "getMessages env s w = (r, w') \<Longrightarrow> quiet_step sid w w'"
  by (rule quiet_stepI [where new = "[]"])
     (simp_all add: getMessages_effects tool_only_def)

lemma createCompletion_frame: "createCompletion env req w = (r, w') \<Longrightarrow> quiet_step sid w w'"
  by (rule quiet_stepI [where new = "[]"])
     (simp_all add: createCompletion_effects tool_only_def)

lemma saveMessage_frame:
  assumes "saveMessage env sid m w = (r, w')" and "role m = Tool"
  shows "quiet_step sid w w'"
proof -
  from saveMessage_effects(1) [OF assms(1)]
  obtain new where "messages w' = messages w @ new" and "new = [] \<or> new = [(sid, m)]"
    by auto
  then show ?thesis
    using assms(2) saveMessage_effects(2,3,6,8) [OF assms(1)]
    by (intro quiet_stepI [where new = new]) (auto simp: tool_only_def)
qed

lemma emit_frame:
  "forwarded_of e = [] \<Longrightarrow> controller_error_of e = [] \<Longrightarrow> quiet_step sid w (emit e w)"
  by (rule quiet_stepI [where new = "[]"])
     (simp_all add: emit_def tool_only_def forwarded_def controller_errors_def)

lemma Date_now_frame: "quiet_step sid w (snd (Date_now env w))"
  by (rule quiet_stepI [where new = "[]"]) (simp_all add: Date_now_def tool_only_def)

lemma tryToolCall_frame:
  assumes "tryToolCall env sid tc w = (r, w')"
  shows "quiet_step sid w w'"
proof (cases "json_parse env (call_arguments tc)")
  case (Inl ex)
  with assms show ?thesis by (simp add: tryToolCall_def quiet_step_refl)
next
  case (Inr args)
  obtain r1 w1 where s1: "executeTool env (call_name tc) args w = (r1, w1)"
    by (cases "executeTool env (call_name tc) args w")
  note f1 = executeTool_frame [OF s1, of sid]
  show ?thesis
  proof (cases r1)
    case (Inl ex)
    with assms Inr s1 f1 show ?thesis by (simp add: tryToolCall_def)
  next
    case res: (Inr res)
    let ?m = "\<lparr>role = Tool, content = json_stringify env res,
              msg_name = Some (call_name tc), toolCallId = Some (call_id tc)\<rparr>"
    obtain r2 w2 where s2: "saveMessage env sid ?m w1 = (r2, w2)"
      by (cases "saveMessage env sid ?m w1")
    have f2: "quiet_step sid w w2"
      using f1 saveMessage_frame [OF s2] by (auto intro: quiet_step_trans)
    show ?thesis
    proof (cases r2)
      case (Inl ex)
      with assms Inr s1 res s2 f2 show ?thesis by (simp add: tryToolCall_def)
    next
      case saved: (Inr u)
      obtain r3 w3 where s3: "getMessages env sid w2 = (r3, w3)"
        by (cases "getMessages env sid w2")
      have f3: "quiet_step sid w w3"
        using f2 getMessages_frame [OF s3] by (auto intro: quiet_step_trans)
      show ?thesis
      proof (cases r3)
        case (Inl ex)
        with assms Inr s1 res s2 saved s3 f3 show ?thesis by (simp add: tryToolCall_def)
      next
        case msgs: (Inr msgs)
        obtain r4 w4 where s4: "getSession env sid w3 = (r4, w4)"
          by (cases "getSession env sid w3")
        have f4: "quiet_step sid w w4"
          using f3 getSession_frame [OF s4] by (auto intro: quiet_step_trans)
        show ?thesis
        proof (cases r4)
          case (Inl ex)
          with assms Inr s1 res s2 saved s3 msgs s4 f4 show ?thesis
            by (simp add: tryToolCall_def)
        next
          case session: (Inr session)
          let ?req = "continuationRequest session msgs"
          obtain r5 w5 where s5: "createCompletion env ?req w4 = (r5, w5)"
            by (cases "createCompletion env ?req w4")
          have f5: "quiet_step sid w w5"
            using f4 createCompletion_frame [OF s5] by (auto intro: quiet_step_trans)
          show ?thesis
          proof (cases r5)
            case (Inl ex)
            with assms Inr s1 res s2 saved s3 msgs s4 session s5 f5 show ?thesis
              by (simp add: tryToolCall_def)
          next
            case followUp: (Inr followUp)
            have "quiet_step sid w5 w'"
              using assms Inr s1 res s2 saved s3 msgs s4 session s5 followUp
              by (auto simp: tryToolCall_def Date_now_def emit_def forwarded_def tool_only_def
                       controller_errors_def intro!: quiet_stepI [where new = "[]"])
            with f5 show ?thesis by (rule quiet_step_trans)
          qed
        qed
      qed
    qed
  qed
qed


lemma quiet_step_store_frame: "quiet_step sid w w' \<Longrightarrow> store_frame sid w w'"
  by (simp add: quiet_step_def store_frame_def)

lemma store_frame_refl: "store_frame sid w w"
  by (simp add: store_frame_def tool_only_def)

lemma store_frame_messages:
  assumes "store_frame sid w w'"
  shows "\<exists>new. messages w' = messages w @ new \<and> tool_only sid new"
proof -
  from assms have "messages w' = messages w @ drop (length (messages w)) (messages w')"
    by (metis append_take_drop_id store_frame_def)
  with assms show ?thesis
    unfolding store_frame_def by blast
qed

lemma store_frame_trans:
  assumes "store_frame sid w1 w2" and "store_frame sid w2 w3"
  shows "store_frame sid w1 w3"
proof -
  from store_frame_messages [OF assms(1)] obtain n1 where
    n1: "messages w2 = messages w1 @ n1" "tool_only sid n1" by blast
  from store_frame_messages [OF assms(2)] obtain n2 where
    n2: "messages w3 = messages w2 @ n2" "tool_only sid n2" by blast
  have "tool_only sid (n1 @ n2)"
    using n1 n2 by (simp add: tool_only_def)
  then show ?thesis
    using n1 n2 assms by (simp add: store_frame_def)
qed

lemma emit_store_frame: "store_frame sid w (emit e w)"
  by (simp add: store_frame_def emit_def tool_only_def)

lemma runToolCall_quiet: "quiet_step sid w (runToolCall env sid tc w)"
proof -
  obtain r w' where t: "tryToolCall env sid tc w = (r, w')"
    by (cases "tryToolCall env sid tc w")
  note f = tryToolCall_frame [OF t]
  show ?thesis
  proof (cases r)
    case (Inl ex)
    have "quiet_step sid w' (emit (LogError ''Tool execution failed'' (error_message ex)) w')"
      by (rule emit_frame) simp_all
    with f have "quiet_step sid w (emit (LogError ''Tool execution failed'' (error_message ex)) w')"
      by (rule quiet_step_trans)
    with t Inl show ?thesis by (simp add: runToolCall_def)
  next
    case (Inr u)
    with t f show ?thesis by (simp add: runToolCall_def)
  qed
qed

lemma executeToolCalls_quiet: "quiet_step sid w (executeToolCalls env sid tcs w)"
proof (induction tcs arbitrary: w)
  case Nil
  show ?case by (simp add: quiet_step_refl)
next
  case (Cons tc tcs)
  have "quiet_step sid w (executeToolCalls env sid tcs (runToolCall env sid tc w))"
    using runToolCall_quiet Cons.IH by (rule quiet_step_trans)
  then show ?case by simp
qed

lemma processChoices_quiet:
  "quiet_step sid w (snd (snd (processChoices env sid chs buf fin w)))"
proof (induction chs arbitrary: buf fin w)
  case Nil
  show ?case by (simp add: quiet_step_refl)
next
  case (Cons ch chs)
  let ?buf = "case delta_toolCalls ch of None \<Rightarrow> buf | Some tcs \<Rightarrow> bufferToolCalls buf tcs"
  have run: "quiet_step sid w
      (snd (snd (processChoices env sid chs ?buf True (executeToolCalls env sid (map snd ?buf) w))))"
    using executeToolCalls_quiet Cons.IH by (rule quiet_step_trans)
  show ?case
    using Cons.IH [of w ?buf] run by (simp add: Let_def)
qed

lemma readLoop_forwarded:
  "forwarded (trace (snd (readLoop env sid rs buf w))) = forwarded (trace w) @ consumed rs"
proof (induction rs arbitrary: buf w)
  case Nil
  show ?case by (simp add: emit_def forwarded_def)
next
  case (Cons r rs)
  show ?case
  proof (cases r)
    case (Inl ex)
    then show ?thesis by (simp add: emit_def forwarded_def)
  next
    case (Inr v)
    obtain b f w' where p: "processChoices env sid (choices v) buf False w = (b, f, w')"
      by (cases "processChoices env sid (choices v) buf False w")
    from processChoices_quiet [of sid w env "choices v" buf False] p
    have q: "forwarded (trace w') = forwarded (trace w)"
      by (simp add: quiet_step_def)
    from p processChoices_flag [of env sid "choices v" buf False w]
    have f: "f = list_ex hasFinish (choices v)"
      by simp
    show ?thesis
      using Inr p q f Cons.IH [of b "emit (Enqueue v) w'"]
      by (simp add: emit_def forwarded_def)
  qed
qed

lemma readLoop_errors:
  "controller_errors (trace (snd (readLoop env sid rs buf w)))
     = controller_errors (trace w) @ read_failure rs"
proof (induction rs arbitrary: buf w)
  case Nil
  show ?case by (simp add: emit_def controller_errors_def)
next
  case (Cons r rs)
  show ?case
  proof (cases r)
    case (Inl ex)
    then show ?thesis by (simp add: emit_def controller_errors_def)
  next
    case (Inr v)
    obtain b f w' where p: "processChoices env sid (choices v) buf False w = (b, f, w')"
      by (cases "processChoices env sid (choices v) buf False w")
    from processChoices_quiet [of sid w env "choices v" buf False] p
    have q: "controller_errors (trace w') = controller_errors (trace w)"
      by (simp add: quiet_step_def)
    from p processChoices_flag [of env sid "choices v" buf False w]
    have f: "f = list_ex hasFinish (choices v)"
      by simp
    show ?thesis
      using Inr p q f Cons.IH [of b "emit (Enqueue v) w'"]
      by (simp add: emit_def controller_errors_def)
  qed
qed

lemma readLoop_store_frame: "store_frame sid w (snd (readLoop env sid rs buf w))"
proof (induction rs arbitrary: buf w)
  case Nil
  show ?case by (simp add: emit_store_frame)
next
  case (Cons r rs)
  show ?case
  proof (cases r)
    case (Inl ex)
    then show ?thesis by (simp add: emit_store_frame)
  next
    case (Inr v)
    obtain b f w' where p: "processChoices env sid (choices v) buf False w = (b, f, w')"
      by (cases "processChoices env sid (choices v) buf False w")
    from processChoices_quiet [of sid w env "choices v" buf False] p
    have "store_frame sid w w'"
      by (simp add: quiet_step_store_frame)
    then have q: "store_frame sid w (emit (Enqueue v) w')"
      using emit_store_frame by (rule store_frame_trans)
    show ?thesis
      using Inr p q Cons.IH [of "emit (Enqueue v) w'" b]
      by (auto intro: store_frame_trans)
  qed
qed

lemma transformStream_store_frame: "store_frame sid w (transformStream env rs sid w)"
  by (simp add: transformStream_def readLoop_store_frame)

lemma forwarded_subseq_enqueued: "subseq (forwarded es) (enqueued es)"
proof (induction es)
  case Nil
  show ?case by (simp add: forwarded_def enqueued_def)
next
  case (Cons e es)
  then show ?case
    by (cases e) (auto simp: forwarded_def enqueued_def)
qed

text \<open>
  C5, amended. Every chunk that the read loop takes from the provider stream, with its
  tool-call deltas, is forwarded to the caller unchanged and in order (the tool-result
  chunks are enqueued among them), and the deltas of those chunks are accumulated in the
  buffer by index.
\<close>

theorem chunks_forwarded_verbatim:
  "forwarded (trace (transformStream env rs sid w)) = forwarded (trace w) @ consumed rs
   \<and> subseq (forwarded (trace (transformStream env rs sid w))) (enqueued (trace (transformStream env rs sid w)))
   \<and> fst (readLoop env sid rs [] w) = bufferToolCalls [] (concat (map chunk_deltas (consumed rs)))"
  using forwarded_subseq_enqueued [of "trace (transformStream env rs sid w)"]
  by (simp add: transformStream_def readLoop_forwarded readLoop_buffer)

text \<open>
  C9. Whatever the environment does, a run of \<^verbatim>\<open>processChat\<close> (and of
  \<^verbatim>\<open>transformStream\<close> in it) only appends to the message table, and every message it
  appends is a \<^verbatim>\<open>tool\<close> message of the request's session: neither the caller's user
  message nor the assistant's reply is persisted. The session table is unchanged except
  for the timestamps that \<^verbatim>\<open>saveMessage\<close> sets.
\<close>

theorem processChat_store_frame:
  "\<exists>new. messages (snd (processChat env request w)) = messages w @ new
     \<and> (\<forall>sm \<in> set new. fst sm = chat_sessionId request \<and> role (snd sm) = Tool)
     \<and> erase_time (sessions (snd (processChat env request w))) = erase_time (sessions w)"
proof -
  let ?sid = "chat_sessionId request"
  have "store_frame ?sid w (snd (processChat env request w))"
  proof -
    obtain r1 w1 where g: "getSession env ?sid w = (r1, w1)"
      by (cases "getSession env ?sid w")
    have f1: "store_frame ?sid w w1"
      using getSession_frame [OF g] by (rule quiet_step_store_frame)
    have fail: "\<And>ex w2. store_frame ?sid w w2 \<Longrightarrow> store_frame ?sid w (snd (chatFailed ex w2))"
      by (auto simp: chatFailed_def intro: store_frame_trans emit_store_frame)
    show ?thesis
    proof (cases r1)
      case (Inl ex)
      with g fail [OF f1] show ?thesis by (simp add: processChat_def)
    next
      case (Inr so)
      show ?thesis
      proof (cases so)
        case None
        with Inr g fail [OF f1] show ?thesis by (simp add: processChat_def)
      next
        case (Some session)
        let ?req = "initialRequest env request session"
        obtain r2 w2 where c: "createCompletion env ?req w1 = (r2, w2)"
          by (cases "createCompletion env ?req w1")
        have f2: "store_frame ?sid w w2"
          using f1 quiet_step_store_frame [OF createCompletion_frame [OF c]]
          by (rule store_frame_trans)
        show ?thesis
        proof (cases r2)
          case (Inl ex)
          with Inr Some g c fail [OF f2] show ?thesis by (simp add: processChat_def)
        next
          case stream: (Inr stream)
          have "store_frame ?sid w (transformStream env stream ?sid w2)"
            using f2 transformStream_store_frame by (rule store_frame_trans)
          with Inr Some g c stream show ?thesis by (simp add: processChat_def)
        qed
      qed
    qed
  qed
  then show ?thesis
    using store_frame_messages [of ?sid w "snd (processChat env request w)"]
    by (auto simp: store_frame_def tool_only_def list_all_iff)
qed

section \<open>Healthy runs of the tool calls\<close>

lemma validateParameters_object: "\<exists>v. validateParameters (JObj kvs) schema = Inr v"
  by (simp add: validateParameters_def checkRequired_object split: option.splits)

lemma executeTool_object: "\<exists>res w'. executeTool env n (JObj kvs) w = (Inr res, w')"
proof (cases "map_of (registry env) n")
  case None
  then show ?thesis by (simp add: executeTool_def Date_now_def)
next
  case (Some tool)
  from validateParameters_object obtain v where
    v: "validateParameters (JObj kvs) (tool_parameters (tool_definition tool)) = Inr v"
    by blast
  show ?thesis
    using Some v
    by (cases "execute tool (JObj kvs)") (simp_all add: executeTool_def Date_now_def)
qed

lemma saveMessage_healthy:
  assumes "healthy env" and "sid \<in> set (map fst (sessions w))"
  shows "\<exists>w'. saveMessage env sid m w = (Inr (), w') \<and> messages w' = messages w @ [(sid, m)]"
proof -
  from assms(2) obtain s where "map_of (sessions w) sid = Some s"
    by (cases "map_of (sessions w) sid") (auto simp: map_of_eq_None_iff)
  with assms(1) show ?thesis
    by (simp add: saveMessage_def db_op_def Date_now_def emit_def healthy_def)
qed

lemma getMessages_healthy:
  assumes "healthy env"
  shows "\<exists>msgs w'. getMessages env sid w = (Inr msgs, w')"
  using assms by (simp add: getMessages_def db_op_def healthy_def)

lemma getSession_healthy:
  assumes "healthy env"
  shows "\<exists>s w'. getSession env sid w = (Inr s, w')"
  using assms by (simp add: getSession_def db_op_def healthy_def)

lemma createCompletion_healthy:
  assumes "healthy env"
  shows "\<exists>s w'. createCompletion env req w = (Inr s, w')"
  using assms by (simp add: createCompletion_def healthy_def)

lemma tryToolCall_healthy:
  assumes h: "healthy env"
      and parse: "json_parse env (call_arguments tc) = Inr (JObj kvs)"
      and sess: "sid \<in> set (map fst (sessions w))"
  shows "\<exists>res w'. tryToolCall env sid tc w = (Inr (), w')
           \<and> fst (executeTool env (call_name tc) (JObj kvs) w) = Inr res
           \<and> executions (trace w') = executions (trace w) @ [(call_name tc, JObj kvs)]
           \<and> phases (trace w') = phases (trace w) @ [Persist, Continue]
           \<and> messages w' = messages w @ [(sid, tool_message env tc res)]
           \<and> map fst (sessions w') = map fst (sessions w)"
proof -
  from executeTool_object obtain res w1 where
    s1: "executeTool env (call_name tc) (JObj kvs) w = (Inr res, w1)" by blast
  note e1 = executeTool_effects [OF s1]
  from sess e1(2) have sess1: "sid \<in> set (map fst (sessions w1))" by simp
  from saveMessage_healthy [OF h sess1] obtain w2 where
    s2: "saveMessage env sid (tool_message env tc res) w1 = (Inr (), w2)"
    and m2: "messages w2 = messages w1 @ [(sid, tool_message env tc res)]" by blast
  note e2 = saveMessage_effects [OF s2]
  from getMessages_healthy [OF h] obtain msgs w3 where
    s3: "getMessages env sid w2 = (Inr msgs, w3)" by blast
  note e3 = getMessages_effects [OF s3]
  from getSession_healthy [OF h] obtain session w4 where
    s4: "getSession env sid w3 = (Inr session, w4)" by blast
  note e4 = getSession_effects [OF s4]
  let ?req = "continuationRequest session msgs"
  from createCompletion_healthy [OF h] obtain followUp w5 where
    s5: "createCompletion env ?req w4 = (Inr followUp, w5)" by blast
  note e5 = createCompletion_effects [OF s5]
  let ?w' = "snd (tryToolCall env sid tc w)"
  have t: "tryToolCall env sid tc w = (Inr (), ?w')"
    and tr: "trace ?w' = trace w5 @ [EnqueueToolResult
                  \<lparr>chunk_id = ''tool-'' @ string_of_int (clock env (tick w5)),
                   created = clock env (Suc (tick w5)) div 1000,
                   model = ''gpt-4-turbo-preview'',
                   choices = [\<lparr>choice_index = 0, delta_role = Some ''assistant'',
                               delta_content = ContentNull, delta_toolCalls = None,
                               finishReason = None\<rparr>]\<rparr>]"
    and ms: "messages ?w' = messages w5" and ss: "sessions ?w' = sessions w5"
    using parse s1 s2 s3 s4 s5
    by (simp_all add: tryToolCall_def tool_message_def Date_now_def emit_def)
  have "executions (trace ?w') = executions (trace w) @ [(call_name tc, JObj kvs)]"
    using tr e1(4) e2(4) e3(3) e4(3) e5(3) by (simp add: executions_def)
  moreover have "phases (trace ?w') = phases (trace w) @ [Persist, Continue]"
    using tr e1(5) e2(5) e3(4) e4(4) e5(4) by (simp add: phases_def)
  moreover have "messages ?w' = messages w @ [(sid, tool_message env tc res)]"
    using ms m2 e1(1) e3(1) e4(1) e5(1) by simp
  moreover have "map fst (sessions ?w') = map fst (sessions w)"
    using ss e1(2) e2(3) e3(2) e4(2) e5(2) by simp
  ultimately show ?thesis
    using t s1 by auto
qed

lemma parses_to_objectD:
  "parses_to_object env tc \<Longrightarrow> \<exists>kvs. json_parse env (call_arguments tc) = Inr (JObj kvs)"
  by (auto simp: parses_to_object_def split: sum.splits jsval.splits)

lemma runToolCall_healthy:
  assumes h: "healthy env"
      and parse: "parses_to_object env tc"
      and sess: "sid \<in> set (map fst (sessions w))"
  shows "\<exists>res. fst (executeTool env (call_name tc) (parsed_arguments env tc) w) = Inr res
           \<and> executions (trace (runToolCall env sid tc w))
                = executions (trace w) @ [(call_name tc, parsed_arguments env tc)]
           \<and> phases (trace (runToolCall env sid tc w)) = phases (trace w) @ [Persist, Continue]
           \<and> messages (runToolCall env sid tc w) = messages w @ [(sid, tool_message env tc res)]
           \<and> map fst (sessions (runToolCall env sid tc w)) = map fst (sessions w)"
proof -
  from parses_to_objectD [OF parse] obtain kvs where
    p: "json_parse env (call_arguments tc) = Inr (JObj kvs)" by blast
  then have pa: "parsed_arguments env tc = JObj kvs"
    by (simp add: parsed_arguments_def)
  from tryToolCall_healthy [OF h p sess] show ?thesis
    unfolding pa by (auto simp: runToolCall_def)
qed

lemma executeToolCalls_healthy:
  assumes h: "healthy env"
      and parse: "list_all (parses_to_object env) tcs"
      and sess: "sid \<in> set (map fst (sessions w))"
  shows "\<exists>results. length results = length tcs
           \<and> executions (trace (executeToolCalls env sid tcs w))
                = executions (trace w) @ map (\<lambda>tc. (call_name tc, parsed_arguments env tc)) tcs
           \<and> phases (trace (executeToolCalls env sid tcs w))
                = phases (trace w) @ concat (replicate (length tcs) [Persist, Continue])
           \<and> messages (executeToolCalls env sid tcs w)
                = messages w @ map (\<lambda>(tc, res). (sid, tool_message env tc res)) (zip tcs results)"
  using parse sess
proof (induction tcs arbitrary: w)
  case Nil
  show ?case by simp
next
  case (Cons tc tcs)
  let ?w1 = "runToolCall env sid tc w"
  from Cons.prems have p1: "parses_to_object env tc" and ps: "list_all (parses_to_object env) tcs"
    by simp_all
  from runToolCall_healthy [OF h p1 Cons.prems(2)] obtain res where
    r: "executions (trace ?w1) = executions (trace w) @ [(call_name tc, parsed_arguments env tc)]"
       "phases (trace ?w1) = phases (trace w) @ [Persist, Continue]"
       "messages ?w1 = messages w @ [(sid, tool_message env tc res)]"
       "map fst (sessions ?w1) = map fst (sessions w)"
    by blast
  from r(4) Cons.prems(2) have s1: "sid \<in> set (map fst (sessions ?w1))" by simp
  from Cons.IH [OF ps s1] obtain results where
    ih: "length results = length tcs"
        "executions (trace (executeToolCalls env sid tcs ?w1))
           = executions (trace ?w1) @ map (\<lambda>tc. (call_name tc, parsed_arguments env tc)) tcs"
        "phases (trace (executeToolCalls env sid tcs ?w1))
           = phases (trace ?w1) @ concat (replicate (length tcs) [Persist, Continue])"
        "messages (executeToolCalls env sid tcs ?w1)
           = messages ?w1 @ map (\<lambda>(tc, res). (sid, tool_message env tc res)) (zip tcs results)"
    by blast
  show ?case
  proof (intro exI [where x = "res # results"] conjI)
    show "length (res # results) = length (tc # tcs)" using ih(1) by simp
    show "executions (trace (executeToolCalls env sid (tc # tcs) w))
            = executions (trace w) @ map (\<lambda>tc. (call_name tc, parsed_arguments env tc)) (tc # tcs)"
      using ih(2) r(1) by simp
    show "phases (trace (executeToolCalls env sid (tc # tcs) w))
            = phases (trace w) @ concat (replicate (length (tc # tcs)) [Persist, Continue])"
      using ih(3) r(2) by simp
    show "messages (executeToolCalls env sid (tc # tcs) w)
            = messages w @ map (\<lambda>(tc, res). (sid, tool_message env tc res)) (zip (tc # tcs) (res # results))"
      using ih(4) r(3) by simp
  qed
qed

lemma processChoices_no_finish:
  "\<not> list_ex hasFinish chs \<Longrightarrow>
     processChoices env sid chs buf fin w = (bufferToolCalls buf (concat (map choice_deltas chs)), fin, w)"
  by (induction chs arbitrary: buf)
     (auto simp: Let_def choice_deltas_def bufferToolCalls_append split: option.splits)

lemma readLoop_prefix:
  "list_all (\<lambda>c. \<not> list_ex hasFinish (choices c)) cs \<Longrightarrow>
     readLoop env sid (map Inr cs @ rest) buf w =
       readLoop env sid rest (bufferToolCalls buf (concat (map chunk_deltas cs)))
         (w\<lparr>trace := trace w @ map Enqueue cs\<rparr>)"
proof (induction cs arbitrary: buf w)
  case Nil
  show ?case by simp
next
  case (Cons c cs)
  then show ?case
    by (simp add: processChoices_no_finish chunk_deltas_def bufferToolCalls_append emit_def)
qed

lemma remdups_drop_present:
  "x \<in> set b \<Longrightarrow> remdups (a @ x # b) = remdups (a @ b)"
  by (induction a) auto

lemma bufferToolCalls_keys:
  "map fst (bufferToolCalls buf ds) = rev (remdups (rev (map fst buf @ map tc_index ds)))"
  if "distinct (map fst buf)"
  using that
proof (induction ds arbitrary: buf)
  case Nil
  then show ?case by (simp add: distinct_remdups_id)
next
  case (Cons d ds)
  let ?e = "case map_of buf (tc_index d) of Some e \<Rightarrow> e
            | None \<Rightarrow> \<lparr>call_id = [], call_name = [], call_arguments = []\<rparr>"
  let ?v = "\<lparr>call_id = str_or (tc_id d) (call_id ?e), call_name = str_or (fn_name d) (call_name ?e),
             call_arguments = call_arguments ?e @ fn_arguments d\<rparr>"
  let ?buf = "AList.update (tc_index d) ?v buf"
  have d: "distinct (map fst ?buf)"
    using Cons.prems by (rule distinct_update)
  have k: "map fst ?buf = (if tc_index d \<in> set (map fst buf) then map fst buf else map fst buf @ [tc_index d])"
    by (rule update_keys)
  have "rev (remdups (rev (map fst ?buf @ map tc_index ds)))
          = rev (remdups (rev (map fst buf @ map tc_index (d # ds))))"
  proof (cases "tc_index d \<in> set (map fst buf)")
    case True
    then have "remdups (rev (map tc_index ds) @ tc_index d # rev (map fst buf))
                 = remdups (rev (map tc_index ds) @ rev (map fst buf))"
      by (intro remdups_drop_present) simp
    with True k show ?thesis by simp
  next
    case False
    with k show ?thesis by simp
  qed
  with Cons.IH [OF d] show ?case by (simp add: Let_def)
qed

lemma executions_Enqueue: "executions (es @ map Enqueue cs) = executions es"
  by (induction cs) (simp_all add: executions_def)

lemma phases_Enqueue: "phases (es @ map Enqueue cs) = phases es"
  by (induction cs) (simp_all add: phases_def)

lemma healthy_turn:
  assumes h: "healthy env"
      and sess: "sid \<in> set (map fst (sessions w))"
      and pre: "list_all (\<lambda>c. \<not> list_ex hasFinish (choices c)) cs"
      and fin: "choices final = [ch]" "finishReason ch = Some ''tool_calls''"
      and buf: "buf = bufferToolCalls [] (concat (map chunk_deltas (cs @ [final])))"
      and parse: "list_all (parses_to_object env) (map snd buf)"
      and w': "w' = transformStream env (map Inr (cs @ [final]) @ rest) sid w"
  shows "\<exists>results. length results = length buf
           \<and> executions (trace w')
                = executions (trace w) @ map (\<lambda>tc. (call_name tc, parsed_arguments env tc)) (map snd buf)
           \<and> map fst buf = rev (remdups (rev (map tc_index (concat (map chunk_deltas (cs @ [final]))))))
           \<and> phases (trace w') = phases (trace w) @ concat (replicate (length buf) [Persist, Continue])
           \<and> messages w'
                = messages w @ map (\<lambda>(tc, res). (sid, tool_message env tc res)) (zip (map snd buf) results)"
proof -
  let ?B0 = "bufferToolCalls [] (concat (map chunk_deltas cs))"
  let ?W0 = "w\<lparr>trace := trace w @ map Enqueue cs\<rparr>"
  have hf: "hasFinish ch"
    using fin(2) by (simp add: hasFinish_def)
  have b1: "(case delta_toolCalls ch of None \<Rightarrow> ?B0 | Some tcs \<Rightarrow> bufferToolCalls ?B0 tcs) = buf"
    using fin(1) unfolding buf
    by (simp add: chunk_deltas_def choice_deltas_def bufferToolCalls_append split: option.splits)
  let ?W1 = "executeToolCalls env sid (map snd buf) ?W0"
  have pc: "processChoices env sid [ch] ?B0 False ?W0 = (buf, True, ?W1)"
  proof (cases "buf = []")
    case True
    then show ?thesis using hf b1 by (simp add: Let_def)
  next
    case False
    then show ?thesis using hf b1 fin(2) by (simp add: Let_def)
  qed
  have "readLoop env sid (map Inr (cs @ [final]) @ rest) [] w
          = readLoop env sid (Inr final # rest) ?B0 ?W0"
    using readLoop_prefix [OF pre, of env sid "Inr final # rest" "[]" w] by simp
  also have "\<dots> = (buf, emit (Enqueue final) ?W1)"
    using pc fin(1) by simp
  finally have w'': "w' = emit (Enqueue final) ?W1"
    unfolding w' by (simp add: transformStream_def)
  have sess0: "sid \<in> set (map fst (sessions ?W0))"
    using sess by simp
  from executeToolCalls_healthy [OF h parse sess0] obtain results where
    r: "length results = length (map snd buf)"
       "executions (trace ?W1)
          = executions (trace ?W0) @ map (\<lambda>tc. (call_name tc, parsed_arguments env tc)) (map snd buf)"
       "phases (trace ?W1) = phases (trace ?W0) @ concat (replicate (length (map snd buf)) [Persist, Continue])"
       "messages ?W1
          = messages ?W0 @ map (\<lambda>(tc, res). (sid, tool_message env tc res)) (zip (map snd buf) results)"
    by blast
  have e: "executions (trace w') = executions (trace ?W1)"
    and p: "phases (trace w') = phases (trace ?W1)"
    and m: "messages w' = messages ?W1"
    unfolding w'' by (simp_all add: emit_def executions_def phases_def)
  have keys: "map fst buf = rev (remdups (rev (map tc_index (concat (map chunk_deltas (cs @ [final]))))))"
    unfolding buf using bufferToolCalls_keys [of "[]"] by simp
  show ?thesis
  proof (intro exI [where x = results] conjI)
    show "length results = length buf" using r(1) by simp
    show "executions (trace w')
            = executions (trace w) @ map (\<lambda>tc. (call_name tc, parsed_arguments env tc)) (map snd buf)"
      using e r(2) by (simp add: executions_Enqueue)
    show "phases (trace w') = phases (trace w) @ concat (replicate (length buf) [Persist, Continue])"
      using p r(3) by (simp add: phases_Enqueue)
    show "messages w'
            = messages w @ map (\<lambda>(tc, res). (sid, tool_message env tc res)) (zip (map snd buf) results)"
      using m r(4) by simp
  qed (rule keys)
qed


section \<open>Concrete runs and the remaining properties\<close>

lemma demo_healthy: "healthy demo_env"
  by (simp add: healthy_def demo_env_def demo_provider_def split: option.splits)

lemma two_call_buffer:
  \<open>bufferToolCalls [] (concat (map chunk_deltas
       ([tool_chunk [delta 1 ''call_b'' ''web_search'' ''{"query":"hi"}''] None,
         tool_chunk [delta 0 ''call_a'' ''nonexistent_tool'' ''{}''] None]
        @ [tool_chunk [] (Some ''tool_calls'')])))
     = [(1, \<lparr>call_id = ''call_b'', call_name = ''web_search'', call_arguments = ''{"query":"hi"}''\<rparr>),
        (0, \<lparr>call_id = ''call_a'', call_name = ''nonexistent_tool'', call_arguments = ''{}''\<rparr>)]\<close>
  by code_simp




text \<open>
  C2. The run on \<open>one_call_stream\<close>: after the tool execution and the persisted tool
  message the continuation is requested with the system prompt and the stored history,
  and the provider answers it with a chunk of text; that chunk never reaches the caller.
  What is enqueued is the tool-result chunk (role \<^verbatim>\<open>assistant\<close>, content \<^verbatim>\<open>null\<close>) and the
  provider chunk that carried the finish reason; the read loop then ends, so nothing the
  continuation says, a further \<^verbatim>\<open>tool_calls\<close> included, is acted on.
\<close>

theorem continuation_output_dropped:
  \<open>trace (transformStream demo_env one_call_stream ''s1'' demo_world) =
     [ExecuteTool ''web_search'' (JObj [(''query'', JStr ''hi'')]),
      ToolInvoked ''web_search'' (JObj [(''query'', JStr ''hi'')]),
      SaveMessage ''s1'' demo_tool_message,
      GetMessages ''s1'', GetSession ''s1'',
      CreateCompletion demo_continuation,
      EnqueueToolResult demo_tool_result_chunk,
      Enqueue (tool_chunk [delta 0 ''call_a'' ''web_search'' ''{"query":"hi"}''] (Some ''tool_calls''))]
   \<and> provider demo_env demo_continuation = Inr [Inr (text_chunk ''continued'' (Some ''stop''))]
   \<and> text_chunk ''continued'' (Some ''stop'')
       \<notin> set (enqueued
           [ExecuteTool ''web_search'' (JObj [(''query'', JStr ''hi'')]),
            ToolInvoked ''web_search'' (JObj [(''query'', JStr ''hi'')]),
            SaveMessage ''s1'' demo_tool_message,
            GetMessages ''s1'', GetSession ''s1'',
            CreateCompletion demo_continuation,
            EnqueueToolResult demo_tool_result_chunk,
            Enqueue (tool_chunk [delta 0 ''call_a'' ''web_search'' ''{"query":"hi"}''] (Some ''tool_calls''))])\<close>
  by code_simp

text \<open>
  C3, as stated, fails on the stream \<open>malformed_stream\<close>: the argument string does not
  parse, and no tool result is made of the failure; nothing is persisted. The failure is
  logged and the chunk is forwarded.
\<close>

theorem malformed_arguments_counterexample:
  \<open>json_parse demo_env ''{"query":'' = Inl (JsError ''Unexpected end of JSON input'')
   \<and> trace (transformStream demo_env malformed_stream ''s1'' demo_world) =
       [LogError ''Tool execution failed'' ''Unexpected end of JSON input'',
        Enqueue (tool_chunk [delta 0 ''call_a'' ''web_search'' ''{"query":''] (Some ''tool_calls''))]
   \<and> messages (transformStream demo_env malformed_stream ''s1'' demo_world) = []\<close>
  by code_simp

text \<open>
  C3, amended. When the argument string of a buffered fragment does not parse, the failure
  is absorbed in the handler of that fragment: it is logged, no tool is executed, nothing
  is persisted or enqueued for the fragment, and the loop goes on with the remaining
  fragments. The caller-facing stream is errored by a failed read of the provider stream
  only, never by a tool call.
\<close>

theorem malformed_arguments_absorbed:
  "(json_parse env (call_arguments tc) = Inl ex \<longrightarrow>
      runToolCall env sid tc w = emit (LogError ''Tool execution failed'' (error_message ex)) w
      \<and> executeToolCalls env sid (tc # rest) w
          = executeToolCalls env sid rest (emit (LogError ''Tool execution failed'' (error_message ex)) w))
   \<and> controller_errors (trace (transformStream env rs sid w))
       = controller_errors (trace w) @ read_failure rs"
  by (simp add: runToolCall_def tryToolCall_def transformStream_def readLoop_errors)

theorem malformed_arguments_absorbed_witness:
  \<open>json_parse demo_env (call_arguments \<lparr>call_id = ''call_a'', call_name = ''web_search'',
        call_arguments = ''{"query":''\<rparr>) = Inl (JsError ''Unexpected end of JSON input'')
   \<and> runToolCall demo_env ''s1'' \<lparr>call_id = ''call_a'', call_name = ''web_search'',
        call_arguments = ''{"query":''\<rparr> demo_world
       = emit (LogError ''Tool execution failed'' ''Unexpected end of JSON input'') demo_world
   \<and> controller_errors (trace (transformStream demo_env malformed_stream ''s1'' demo_world)) = []\<close>
proof -
  let ?tc = \<open>\<lparr>call_id = ''call_a'', call_name = ''web_search'', call_arguments = ''{"query":''\<rparr>\<close>
  have p: "json_parse demo_env (call_arguments ?tc) = Inl (JsError ''Unexpected end of JSON input'')"
    by (simp add: demo_env_def demo_parse_def)
  have r: "read_failure malformed_stream = []"
    by (simp add: malformed_stream_def tool_chunk_def hasFinish_def)
  from malformed_arguments_absorbed [of demo_env ?tc "JsError ''Unexpected end of JSON input''"
         "''s1''" demo_world "[]" malformed_stream]
  have "runToolCall demo_env ''s1'' ?tc demo_world
          = emit (LogError ''Tool execution failed'' ''Unexpected end of JSON input'') demo_world"
    and "controller_errors (trace (transformStream demo_env malformed_stream ''s1'' demo_world))
          = controller_errors (trace demo_world) @ read_failure malformed_stream"
    using p by simp_all
  then show ?thesis
    using p r by (simp add: controller_errors_def demo_world_def)
qed

text \<open>
  C5, as stated, fails: a provider chunk with a tool-call delta and no finish reason is
  enqueued as it is, so the caller-facing stream contains the raw delta.
\<close>

theorem chunks_forwarded_counterexample:
  \<open>enqueued (trace (transformStream demo_env
       [Inr (tool_chunk [delta 0 ''call_a'' ''web_search'' ''{"query":''] None)] ''s1'' demo_world))
     = [tool_chunk [delta 0 ''call_a'' ''web_search'' ''{"query":''] None]
   \<and> chunk_deltas (tool_chunk [delta 0 ''call_a'' ''web_search'' ''{"query":''] None)
     = [delta 0 ''call_a'' ''web_search'' ''{"query":'']\<close>
  by code_simp

theorem chunks_forwarded_verbatim_witness:
  \<open>forwarded (trace (transformStream demo_env two_call_stream ''s1'' demo_world))
     = [tool_chunk [delta 1 ''call_b'' ''web_search'' ''{"query":"hi"}''] None,
        tool_chunk [delta 0 ''call_a'' ''nonexistent_tool'' ''{}''] None,
        tool_chunk [] (Some ''tool_calls'')]
   \<and> map fst (fst (readLoop demo_env ''s1'' two_call_stream [] demo_world)) = [1, 0]\<close>
proof -
  have c: \<open>consumed two_call_stream
     = [tool_chunk [delta 1 ''call_b'' ''web_search'' ''{"query":"hi"}''] None,
        tool_chunk [delta 0 ''call_a'' ''nonexistent_tool'' ''{}''] None,
        tool_chunk [] (Some ''tool_calls'')]\<close>
    by (simp add: two_call_stream_def tool_chunk_def hasFinish_def)
  have b: "map fst (bufferToolCalls [] (concat (map chunk_deltas (consumed two_call_stream)))) = [1, 0]"
    unfolding c using two_call_buffer by simp
  from chunks_forwarded_verbatim [of demo_env two_call_stream "''s1''" demo_world]
  have "forwarded (trace (transformStream demo_env two_call_stream ''s1'' demo_world))
          = forwarded (trace demo_world) @ consumed two_call_stream"
    and "fst (readLoop demo_env ''s1'' two_call_stream [] demo_world)
          = bufferToolCalls [] (concat (map chunk_deltas (consumed two_call_stream)))"
    by simp_all
  moreover have "forwarded (trace demo_world) = []"
    by (simp add: demo_world_def forwarded_def)
  ultimately show ?thesis
    using c b by (simp only: append_Nil simp_thms)
qed

lemma processChat_streams:
  assumes "getSession env (chat_sessionId request) w = (Inr (Some session), w1)"
      and "provider env (initialRequest env request session) = Inr stream"
  shows "snd (processChat env request w) =
           transformStream env stream (chat_sessionId request)
             (emit (CreateCompletion (initialRequest env request session)) w1)"
  using assms by (simp add: processChat_def createCompletion_def)

theorem processChat_store_frame_witness:
  "map (\<lambda>sm. (fst sm, role (snd sm), toolCallId (snd sm)))
     (messages (snd (processChat demo_env demo_request demo_world)))
     = [(''s1'', Tool, Some ''call_a'')]"
proof -
  let ?final = \<open>tool_chunk [delta 0 ''call_a'' ''web_search'' ''{"query":"hi"}''] (Some ''tool_calls'')\<close>
  let ?f = \<open>\<lparr>call_id = ''call_a'', call_name = ''web_search'', call_arguments = ''{"query":"hi"}''\<rparr>\<close>
  let ?w1 = "snd (getSession demo_env ''s1'' demo_world)"
  let ?w2 = "emit (CreateCompletion (initialRequest demo_env demo_request demo_session)) ?w1"
  have g: "getSession demo_env (chat_sessionId demo_request) demo_world = (Inr (Some demo_session), ?w1)"
    by (simp add: getSession_def db_op_def emit_def demo_env_def demo_world_def demo_request_def)
  have p: "provider demo_env (initialRequest demo_env demo_request demo_session) = Inr one_call_stream"
    by (simp add: demo_env_def demo_provider_def initialRequest_def getRegisteredTools_def
          toolRegistry_def)
  have run: "snd (processChat demo_env demo_request demo_world)
               = transformStream demo_env (map Inr ([] @ [?final]) @ []) ''s1'' ?w2"
    using processChat_streams [OF g p] by (simp add: one_call_stream_def demo_request_def)
  have w2: "sessions ?w2 = sessions demo_world" "messages ?w2 = messages demo_world"
    using getSession_effects(1,2) [OF g] by (simp_all add: emit_def)
  have h2: "''s1'' \<in> set (map fst (sessions ?w2))"
    unfolding w2 by (simp add: demo_world_def)
  have h4: "choices ?final = [hd (choices ?final)]"
    by (simp add: tool_chunk_def)
  have h5: "finishReason (hd (choices ?final)) = Some ''tool_calls''"
    by (simp add: tool_chunk_def)
  have b: "bufferToolCalls [] (concat (map chunk_deltas ([] @ [?final]))) = [(0, ?f)]"
    by code_simp
  have h6: "list_all (parses_to_object demo_env) (map snd [(0::nat, ?f)])"
    by code_simp
  have h3: "list_all (\<lambda>c. \<not> list_ex hasFinish (choices c)) []"
    by simp
  from healthy_turn [OF demo_healthy h2 h3 h4 h5 b [symmetric] h6 run]
  obtain results where r: "length results = length [(0::nat, ?f)]"
    "messages (snd (processChat demo_env demo_request demo_world)) = messages ?w2
       @ map (\<lambda>(tc, res). (''s1'', tool_message demo_env tc res)) (zip (map snd [(0::nat, ?f)]) results)"
    by (elim exE conjE) (rule that; simp)
  from r(1) obtain res where res: "results = [res]"
    by (cases results) auto
  have t: ?thesis
    unfolding r(2) w2 res by (simp add: demo_world_def tool_message_def)
  from processChat_store_frame [of demo_env demo_request demo_world] t
  show ?thesis
    by (rule conjunct2 [OF conjI])
qed

end
